theory Spec2Isabelle
  imports Main "HOL-Library.Word"
begin

section \<open>Jablotron 100 protocol engine (jablotron.py)\<close>

text \<open>
  A shallow embedding of the byte codec, the section and device state decoders, the
  command encoder, the state store and the read step of
  \<^verbatim>\<open>custom_components/jablotron100/jablotron.py\<close>.
  Python \<^verbatim>\<open>bytes\<close> are lists of 8-bit words, Python integers are \<open>int\<close>, exceptions are
  values of the type \<open>error\<close>, and the mutable object \<^verbatim>\<open>self\<close> is the record \<open>engine\<close>
  that every method takes and returns.
\<close>

subsection \<open>Python values\<close>

type_synonym byte = "8 word"
type_synonym bytes = "byte list"

datatype error = ValueError | OverflowError | KeyError | IndexError

datatype byteorder = Little | Big

text \<open>\<^verbatim>\<open>xs[i:j]\<close> for indices that are not negative: never raises, clips at the end.\<close>

definition py_slice :: "'a list \<Rightarrow> nat \<Rightarrow> nat \<Rightarrow> 'a list" where
  "py_slice xs i j = take (j - i) (drop i xs)"

text \<open>\<^verbatim>\<open>xs[i]\<close>: a negative index counts from the end, an index out of range raises.\<close>

definition py_index :: "'a list \<Rightarrow> int \<Rightarrow> error + 'a" where
  "py_index xs i =
     (if 0 \<le> i \<and> i < int (length xs) then Inr (xs ! nat i)
      else if - int (length xs) \<le> i \<and> i < 0 then Inr (xs ! nat (int (length xs) + i))
      else Inl IndexError)"

text \<open>\<^verbatim>\<open>str(n)\<close> for an integer that is not negative, as \<^verbatim>\<open>"{}".format(n)\<close> renders it.\<close>

fun str_nat :: "nat \<Rightarrow> string" where
  "str_nat n =
     (if n < 10 then [char_of (48 + n)]
      else str_nat (n div 10) @ [char_of (48 + n mod 10)])"

declare str_nat.simps [simp del]

text \<open>The binary digits of \<^verbatim>\<open>bin(n)\<close>, most significant first; \<^verbatim>\<open>bin(0)\<close> is \<^verbatim>\<open>0b0\<close>.\<close>

fun bin_nat :: "nat \<Rightarrow> string" where
  "bin_nat n =
     (if n < 2 then [if n = 0 then CHR ''0'' else CHR ''1'']
      else bin_nat (n div 2) @ [if n mod 2 = 0 then CHR ''0'' else CHR ''1''])"

declare bin_nat.simps [simp del]

definition py_bin :: "int \<Rightarrow> string" where
  "py_bin n = (if n < 0 then ''-0b'' @ bin_nat (nat (- n)) else ''0b'' @ bin_nat (nat n))"

text \<open>\<^verbatim>\<open>s.zfill(width)\<close> on a string without a sign.\<close>

definition zfill :: "string \<Rightarrow> nat \<Rightarrow> string" where
  "zfill s width = replicate (width - length s) CHR ''0'' @ s"

subsection \<open>Constants\<close>

text \<open>The state names of \<^verbatim>\<open>homeassistant.const\<close>.\<close>

definition STATE_ALARM_DISARMED :: string where "STATE_ALARM_DISARMED = ''disarmed''"
definition STATE_ALARM_ARMED_AWAY :: string where "STATE_ALARM_ARMED_AWAY = ''armed_away''"
definition STATE_ALARM_ARMED_NIGHT :: string where "STATE_ALARM_ARMED_NIGHT = ''armed_night''"
definition STATE_ALARM_ARMING :: string where "STATE_ALARM_ARMING = ''arming''"
definition STATE_ALARM_PENDING :: string where "STATE_ALARM_PENDING = ''pending''"
definition STATE_ALARM_TRIGGERED :: string where "STATE_ALARM_TRIGGERED = ''triggered''"
definition STATE_OFF :: string where "STATE_OFF = ''off''"
definition STATE_ON :: string where "STATE_ON = ''on''"

lemmas state_names =
  STATE_ALARM_DISARMED_def STATE_ALARM_ARMED_AWAY_def STATE_ALARM_ARMED_NIGHT_def
  STATE_ALARM_ARMING_def STATE_ALARM_PENDING_def STATE_ALARM_TRIGGERED_def
  STATE_OFF_def STATE_ON_def

text \<open>
  The module \<^verbatim>\<open>const.py\<close> of the repository and the byte order of the platform
  (\<^verbatim>\<open>sys.byteorder\<close>) are not part of \<^verbatim>\<open>jablotron.py\<close>: what the engine reads from
  them is a parameter of every definition that uses it.
\<close>

record jconst =
  sys_byteorder :: byteorder
  MAX_SECTIONS :: nat
  DEVICES :: "string \<rightharpoonup> string"
  DEVICE_EMPTY :: string
  DEVICE_KEYPAD :: string
  DEVICE_SIREN_OUTDOOR :: string
  DEVICE_OTHER :: string

definition STORAGE_STATES_KEY :: string where "STORAGE_STATES_KEY = ''states''"

definition JABLOTRON_PACKET_SECTIONS_STATES_PREFIX :: bytes where
  "JABLOTRON_PACKET_SECTIONS_STATES_PREFIX = [0x51, 0x22]"
definition JABLOTRON_PACKET_DEVICES_STATES_PREFIX :: bytes where
  "JABLOTRON_PACKET_DEVICES_STATES_PREFIX = [0xd8]"
definition JABLOTRON_PACKET_WIRED_DEVICE_STATE_PREFIX :: bytes where
  "JABLOTRON_PACKET_WIRED_DEVICE_STATE_PREFIX = [0x55, 0x08]"
definition JABLOTRON_PACKET_WIRELESS_DEVICE_STATE_PREFIX :: bytes where
  "JABLOTRON_PACKET_WIRELESS_DEVICE_STATE_PREFIX = [0x55, 0x09]"
definition JABLOTRON_PACKETS_DEVICE_ACTIVITY :: "bytes list" where
  "JABLOTRON_PACKETS_DEVICE_ACTIVITY =
     [[0x00], [0x01], [0x0a], [0x0c], [0x24], [0x3e], [0x80], [0x81], [0xa3], [0xa4], [0xa6], [0xbe]]"

definition JABLOTRON_SECTION_PRIMARY_STATE_DISARMED :: int where
  "JABLOTRON_SECTION_PRIMARY_STATE_DISARMED = 1"
definition JABLOTRON_SECTION_PRIMARY_STATE_ARMED_PARTIALLY :: int where
  "JABLOTRON_SECTION_PRIMARY_STATE_ARMED_PARTIALLY = 2"
definition JABLOTRON_SECTION_PRIMARY_STATE_ARMED_FULL :: int where
  "JABLOTRON_SECTION_PRIMARY_STATE_ARMED_FULL = 3"
definition JABLOTRON_SECTION_PRIMARY_STATE_TRIGGERED :: int where
  "JABLOTRON_SECTION_PRIMARY_STATE_TRIGGERED = 11"

definition JABLOTRON_SECTION_SECONDARY_STATE_OK :: int where
  "JABLOTRON_SECTION_SECONDARY_STATE_OK = 0"
definition JABLOTRON_SECTION_SECONDARY_STATE_TRIGGERED :: int where
  "JABLOTRON_SECTION_SECONDARY_STATE_TRIGGERED = 1"
definition JABLOTRON_SECTION_SECONDARY_STATE_PROBLEM :: int where
  "JABLOTRON_SECTION_SECONDARY_STATE_PROBLEM = 2"
definition JABLOTRON_SECTION_SECONDARY_STATE_PENDING :: int where
  "JABLOTRON_SECTION_SECONDARY_STATE_PENDING = 4"
definition JABLOTRON_SECTION_SECONDARY_STATE_ARMING :: int where
  "JABLOTRON_SECTION_SECONDARY_STATE_ARMING = 8"

definition JABLOTRON_SECTION_TERTIARY_STATE_OFF :: int where
  "JABLOTRON_SECTION_TERTIARY_STATE_OFF = 0"
definition JABLOTRON_SECTION_TERTIARY_STATE_ON :: int where
  "JABLOTRON_SECTION_TERTIARY_STATE_ON = 1"
definition JABLOTRON_SECTION_TERTIARY_STATE_TRIGGERED :: int where
  "JABLOTRON_SECTION_TERTIARY_STATE_TRIGGERED = 17"

lemmas section_state_codes =
  JABLOTRON_SECTION_PRIMARY_STATE_DISARMED_def JABLOTRON_SECTION_PRIMARY_STATE_ARMED_PARTIALLY_def
  JABLOTRON_SECTION_PRIMARY_STATE_ARMED_FULL_def JABLOTRON_SECTION_PRIMARY_STATE_TRIGGERED_def
  JABLOTRON_SECTION_SECONDARY_STATE_OK_def JABLOTRON_SECTION_SECONDARY_STATE_TRIGGERED_def
  JABLOTRON_SECTION_SECONDARY_STATE_PROBLEM_def JABLOTRON_SECTION_SECONDARY_STATE_PENDING_def
  JABLOTRON_SECTION_SECONDARY_STATE_ARMING_def JABLOTRON_SECTION_TERTIARY_STATE_OFF_def
  JABLOTRON_SECTION_TERTIARY_STATE_ON_def JABLOTRON_SECTION_TERTIARY_STATE_TRIGGERED_def

subsection \<open>Byte codec\<close>

text \<open>
  \<^verbatim>\<open>int.to_bytes(number, 1, byteorder=sys.byteorder)\<close>: one byte, OverflowError when the
  number does not fit (the byte order has no effect on a single byte).
\<close>

definition int_to_bytes :: "int \<Rightarrow> error + bytes" where
  "int_to_bytes number =
     (if 0 \<le> number \<and> number \<le> 255 then Inr [word_of_int number] else Inl OverflowError)"

fun int_from_bytes_little :: "bytes \<Rightarrow> int" where
  "int_from_bytes_little [] = 0"
| "int_from_bytes_little (b # bs) = uint b + 256 * int_from_bytes_little bs"

text \<open>\<^verbatim>\<open>int.from_bytes(packet, byteorder=sys.byteorder)\<close>: unsigned, 0 on the empty string.\<close>

definition bytes_to_int :: "jconst \<Rightarrow> bytes \<Rightarrow> int" where
  "bytes_to_int k packet =
     (case sys_byteorder k of
        Little \<Rightarrow> int_from_bytes_little packet
      | Big \<Rightarrow> int_from_bytes_little (rev packet))"

definition hex_to_bin :: "jconst \<Rightarrow> bytes \<Rightarrow> string" where
  "hex_to_bin k hex =
     (let dec = bytes_to_int k hex;
          bin_dec = py_bin dec;
          bin_string = drop 2 bin_dec;
          bin_string = zfill bin_string (length hex * 8)
      in rev bin_string)"

subsection \<open>Section state decoder\<close>

record section_state =
  primary :: int
  secondary :: int
  tertiary :: int

text \<open>
  \<^verbatim>\<open>_parse_jablotron_section_state\<close>. The slices and \<^verbatim>\<open>int.from_bytes\<close> accept a
  record of any length, and both divisors are the literal 16, so no statement of the body
  can raise. \<^verbatim>\<open>int((number - primary_state) / 16)\<close> divides a multiple of 16 below 256 as
  a float: the quotient is exact, and the model takes it on the integers.
\<close>

definition parse_jablotron_section_state :: "jconst \<Rightarrow> bytes \<Rightarrow> section_state" where
  "parse_jablotron_section_state k packet =
     (let first_packet = py_slice packet 0 1;
          number = bytes_to_int k first_packet;
          primary_state = number mod 16;
          secondary_state = (number - primary_state) div 16
      in \<lparr> primary = primary_state,
           secondary = secondary_state,
           tertiary = bytes_to_int k (py_slice packet 1 2) \<rparr>)"

definition convert_jablotron_section_state_to_alarm_state :: "section_state \<Rightarrow> string" where
  "convert_jablotron_section_state_to_alarm_state state =
     (if primary state = JABLOTRON_SECTION_PRIMARY_STATE_TRIGGERED
         \<or> secondary state = JABLOTRON_SECTION_SECONDARY_STATE_TRIGGERED
      then STATE_ALARM_TRIGGERED
      else if secondary state = JABLOTRON_SECTION_SECONDARY_STATE_ARMING
      then STATE_ALARM_ARMING
      else if secondary state = JABLOTRON_SECTION_SECONDARY_STATE_PENDING
      then STATE_ALARM_PENDING
      else if primary state = JABLOTRON_SECTION_PRIMARY_STATE_ARMED_FULL
      then (if tertiary state = JABLOTRON_SECTION_TERTIARY_STATE_ON
            then STATE_ALARM_TRIGGERED
            else STATE_ALARM_ARMED_AWAY)
      else if primary state = JABLOTRON_SECTION_PRIMARY_STATE_ARMED_PARTIALLY
      then STATE_ALARM_ARMED_NIGHT
      else STATE_ALARM_DISARMED)"

definition convert_jablotron_section_state_to_problem_sensor_state :: "section_state \<Rightarrow> string" where
  "convert_jablotron_section_state_to_problem_sensor_state state =
     (if secondary state = JABLOTRON_SECTION_SECONDARY_STATE_PROBLEM then STATE_ON else STATE_OFF)"

text \<open>
  \<^verbatim>\<open>_parse_sections_states_packet\<close>: the loop over \<^verbatim>\<open>range(1, MAX_SECTIONS + 1)\<close>, with
  the number of sections still to visit as the second counter. The dictionary it builds is
  the list of its items in insertion order.
\<close>

fun scan_sections :: "bytes \<Rightarrow> nat \<Rightarrow> nat \<Rightarrow> (nat \<times> bytes) list" where
  "scan_sections packet section 0 = []"
| "scan_sections packet section (Suc remaining) =
     (let state_offset = section * 2;
          state = py_slice packet state_offset (state_offset + 2)
      in if state = [0x07, 0x00] then []
         else (section, state) # scan_sections packet (Suc section) remaining)"

definition parse_sections_states_packet :: "jconst \<Rightarrow> bytes \<Rightarrow> (nat \<times> bytes) list" where
  "parse_sections_states_packet k packet = scan_sections packet 1 (MAX_SECTIONS k)"

subsection \<open>Device state decoder\<close>

definition is_device_state_packet :: "bytes \<Rightarrow> bool" where
  "is_device_state_packet prefix \<longleftrightarrow>
     prefix = JABLOTRON_PACKET_WIRED_DEVICE_STATE_PREFIX
     \<or> prefix = JABLOTRON_PACKET_WIRELESS_DEVICE_STATE_PREFIX"

definition is_device_state_packet_for_activity :: "bytes \<Rightarrow> bool" where
  "is_device_state_packet_for_activity packet \<longleftrightarrow>
     py_slice packet 2 3 \<in> set JABLOTRON_PACKETS_DEVICE_ACTIVITY"

definition is_device_state_packet_for_sabotage :: "jconst \<Rightarrow> bytes \<Rightarrow> bool" where
  "is_device_state_packet_for_sabotage k packet \<longleftrightarrow> bytes_to_int k (py_slice packet 2 3) mod 128 = 6"

definition is_device_state_packet_for_fault :: "jconst \<Rightarrow> bytes \<Rightarrow> bool" where
  "is_device_state_packet_for_fault k packet \<longleftrightarrow> bytes_to_int k (py_slice packet 2 3) mod 128 = 7"

text \<open>
  \<^verbatim>\<open>int(_bytes_to_int(packet[4:6]) / 64)\<close>: the float quotient of a number below 65536
  by a power of two is exact, and \<^verbatim>\<open>int\<close> drops its fraction.
\<close>

definition parse_device_number_from_state_packet :: "jconst \<Rightarrow> bytes \<Rightarrow> int" where
  "parse_device_number_from_state_packet k packet = bytes_to_int k (py_slice packet 4 6) div 64"

definition convert_jablotron_device_state_to_state :: "jconst \<Rightarrow> bytes \<Rightarrow> int \<Rightarrow> string option" where
  "convert_jablotron_device_state_to_state k packet device_number =
     (let state = bytes_to_int k (py_slice packet 3 4);
          high_device_number_offset =
            (if device_number \<le> 36 then 0 else if device_number \<le> 96 then - 64 else - 128);
          device_states_offset = ((device_number + high_device_number_offset) * 4) + 104;
          on_state = device_states_offset;
          on_state_2 = device_states_offset + 1;
          off_state = device_states_offset + 2;
          off_state_2 = device_states_offset + 3
      in if state = off_state \<or> state = off_state_2 then Some STATE_OFF
         else if state = on_state \<or> state = on_state_2 then Some STATE_ON
         else None)"

subsection \<open>Engine state\<close>

record config =
  CONF_SERIAL_PORT :: string
  CONF_PASSWORD :: string
  CONF_NUMBER_OF_DEVICES :: int
  CONF_DEVICES :: "string list"

text \<open>
  The fields of \<^verbatim>\<open>Jablotron\<close> that the modelled methods read or write.
  \<open>entities\<close> holds the keys of the dictionary \<^verbatim>\<open>_entities\<close> in insertion order.
  Three fields record the calls that leave the engine: \<open>ha_state_writes\<close> the ids
  whose entity received \<^verbatim>\<open>async_write_ha_state()\<close>, \<open>delay_saves\<close> the number of
  \<^verbatim>\<open>async_delay_save\<close> calls on the store, \<open>sent_packets\<close> the packets written
  to the serial port. Logging, the threads and the clock are not modelled.
\<close>

record engine =
  config :: config
  central_unit_model :: string
  entities :: "string list"
  states :: "string \<rightharpoonup> string"
  stored_data :: "string \<rightharpoonup> (string \<rightharpoonup> (string \<rightharpoonup> string))"
  last_update_success :: bool
  ha_state_writes :: "string list"
  delay_saves :: nat
  sent_packets :: "bytes list"

definition str_int :: "int \<Rightarrow> string" where
  "str_int n = (if n < 0 then CHR ''-'' # str_nat (nat (- n)) else str_nat (nat n))"

definition create_section_alarm_id :: "nat \<Rightarrow> string" where
  "create_section_alarm_id section = ''section_'' @ str_nat section"

definition create_section_problem_sensor_id :: "nat \<Rightarrow> string" where
  "create_section_problem_sensor_id section = ''section_problem_sensor_'' @ str_nat section"

definition create_device_sensor_id :: "int \<Rightarrow> string" where
  "create_device_sensor_id device_number = ''device_sensor_'' @ str_int device_number"

definition create_device_problem_sensor_id :: "int \<Rightarrow> string" where
  "create_device_problem_sensor_id device_number = ''device_problem_sensor_'' @ str_int device_number"

definition create_lan_connection_id :: string where
  "create_lan_connection_id = ''lan''"

definition substribe_entity_for_updates :: "string \<Rightarrow> engine \<Rightarrow> engine" where
  "substribe_entity_for_updates control_id eng =
     (if control_id \<in> set (entities eng) then eng
      else eng\<lparr>entities := entities eng @ [control_id]\<rparr>)"

definition update_all_entities :: "engine \<Rightarrow> engine" where
  "update_all_entities eng = eng\<lparr>ha_state_writes := ha_state_writes eng @ entities eng\<rparr>"

text \<open>\<^verbatim>\<open>_send_packet\<close>; a failure of the serial device itself is not modelled.\<close>

definition send_packet :: "bytes \<Rightarrow> engine \<Rightarrow> engine" where
  "send_packet packet eng = eng\<lparr>sent_packets := sent_packets eng @ [packet]\<rparr>"

subsection \<open>State store\<close>

definition store_state :: "string \<Rightarrow> string \<Rightarrow> engine \<Rightarrow> engine" where
  "store_state ident state eng =
     (let serial_port = CONF_SERIAL_PORT (config eng);
          port_data = (case stored_data eng serial_port of None \<Rightarrow> Map.empty | Some d \<Rightarrow> d);
          states_data = (case port_data STORAGE_STATES_KEY of None \<Rightarrow> Map.empty | Some d \<Rightarrow> d)
      in eng\<lparr>stored_data :=
               (stored_data eng)(serial_port \<mapsto>
                  port_data(STORAGE_STATES_KEY \<mapsto> states_data(ident \<mapsto> state))),
             delay_saves := Suc (delay_saves eng)\<rparr>)"

definition update_state :: "string \<Rightarrow> string \<Rightarrow> bool \<Rightarrow> engine \<Rightarrow> engine" where
  "update_state ident state store eng =
     (if ident \<in> dom (states eng) \<and> Some state = states eng ident then eng
      else
        let eng1 = eng\<lparr>states := (states eng)(ident \<mapsto> state)\<rparr>;
            eng2 = (if ident \<in> set (entities eng1)
                    then eng1\<lparr>ha_state_writes := ha_state_writes eng1 @ [ident]\<rparr>
                    else eng1)
        in if store then store_state ident state eng2 else eng2)"

subsection \<open>Configured devices\<close>

definition get_device_type :: "engine \<Rightarrow> int \<Rightarrow> error + string" where
  "get_device_type eng number = py_index (CONF_DEVICES (config eng)) (number - 1)"

definition is_device_ignored :: "jconst \<Rightarrow> engine \<Rightarrow> int \<Rightarrow> error + bool" where
  "is_device_ignored k eng number =
     (case get_device_type eng number of
        Inl e \<Rightarrow> Inl e
      | Inr type \<Rightarrow> Inr (type \<in> set [DEVICE_KEYPAD k, DEVICE_OTHER k, DEVICE_EMPTY k]))"

definition is_device_with_activity_sensor :: "jconst \<Rightarrow> engine \<Rightarrow> int \<Rightarrow> error + bool" where
  "is_device_with_activity_sensor k eng number =
     (case get_device_type eng number of
        Inl e \<Rightarrow> Inl e
      | Inr type \<Rightarrow> Inr (type \<notin> set [DEVICE_SIREN_OUTDOOR k]))"

definition get_lan_connection_device_number :: "engine \<Rightarrow> int option" where
  "get_lan_connection_device_number eng =
     (if central_unit_model eng = ''JA-101K-LAN'' then Some 125 else None)"

subsection \<open>Processing packets\<close>

definition section_states_step :: "jconst \<Rightarrow> nat \<times> bytes \<Rightarrow> engine \<Rightarrow> engine" where
  "section_states_step k item eng =
     (let section = fst item;
          section_packet = snd item;
          section_state = parse_jablotron_section_state k section_packet;
          eng1 = update_state (create_section_alarm_id section)
                   (convert_jablotron_section_state_to_alarm_state section_state) False eng
      in if secondary section_state = JABLOTRON_SECTION_SECONDARY_STATE_OK
            \<or> secondary section_state = JABLOTRON_SECTION_SECONDARY_STATE_PROBLEM
         then update_state (create_section_problem_sensor_id section)
                (convert_jablotron_section_state_to_problem_sensor_state section_state) False eng1
         else eng1)"

definition parse_section_states_packet :: "jconst \<Rightarrow> bytes \<Rightarrow> engine \<Rightarrow> engine" where
  "parse_section_states_packet k packet eng =
     fold (section_states_step k) (parse_sections_states_packet k packet) eng"

text \<open>
  \<^verbatim>\<open>_parse_device_state_packet\<close>. The result is the exception that left the method, if
  any, and the engine at that point. The debug message for an ignored device looks the
  type up in \<^verbatim>\<open>DEVICES\<close>, which raises KeyError for a type that has no name there.
\<close>

definition parse_device_state_packet :: "jconst \<Rightarrow> bytes \<Rightarrow> engine \<Rightarrow> error option \<times> engine" where
  "parse_device_state_packet k packet eng =
     (let device_number = parse_device_number_from_state_packet k packet in
      if device_number = 0 then (None, eng)
      else
        let lan_connection_device_number = get_lan_connection_device_number eng;
            is_lan_connection_device = (lan_connection_device_number = Some device_number)
        in
        if \<not> is_lan_connection_device \<and> device_number > CONF_NUMBER_OF_DEVICES (config eng)
        then (None, eng)
        else
          case (if is_lan_connection_device then Inr False
                else is_device_ignored k eng device_number) of
            Inl e \<Rightarrow> (Some e, eng)
          | Inr True \<Rightarrow>
              (case get_device_type eng device_number of
                 Inl e \<Rightarrow> (Some e, eng)
               | Inr type \<Rightarrow>
                   (case DEVICES k type of None \<Rightarrow> (Some KeyError, eng) | Some name \<Rightarrow> (None, eng)))
          | Inr False \<Rightarrow>
              (case convert_jablotron_device_state_to_state k packet device_number of
                 None \<Rightarrow> (None, eng)
               | Some device_state \<Rightarrow>
                   if is_lan_connection_device
                   then (None, update_state create_lan_connection_id
                                 (if device_state = STATE_OFF then STATE_ON else STATE_OFF) True eng)
                   else
                     (case is_device_with_activity_sensor k eng device_number of
                        Inl e \<Rightarrow> (Some e, eng)
                      | Inr with_activity_sensor \<Rightarrow>
                          if with_activity_sensor \<and> is_device_state_packet_for_activity packet
                          then (None, update_state (create_device_sensor_id device_number)
                                        device_state False eng)
                          else if is_device_state_packet_for_sabotage k packet
                                  \<or> is_device_state_packet_for_fault k packet
                          then (None, update_state (create_device_problem_sensor_id device_number)
                                        device_state True eng)
                          else (None, eng))))"

text \<open>
  \<^verbatim>\<open>_parse_devices_states_packet\<close>, in the three parts of its body: the bitfield string,
  the device state packet that may follow the bitfield, and the loop over the devices.
\<close>

definition triggered_device_start_packet :: "jconst \<Rightarrow> bytes \<Rightarrow> int" where
  "triggered_device_start_packet k packet = 3 + bytes_to_int k (py_slice packet 1 2) - 1"

definition devices_states_bitfield :: "jconst \<Rightarrow> bytes \<Rightarrow> string" where
  "devices_states_bitfield k packet =
     hex_to_bin k (py_slice packet 3 (nat (triggered_device_start_packet k packet)))"

definition devices_states_triggered_device :: "jconst \<Rightarrow> bytes \<Rightarrow> engine \<Rightarrow> error option \<times> engine" where
  "devices_states_triggered_device k packet eng =
     (let start = nat (triggered_device_start_packet k packet) in
      if is_device_state_packet (py_slice packet start (start + 2))
      then parse_device_state_packet k (drop start packet) eng
      else (None, eng))"

definition devices_states_step :: "string \<Rightarrow> int \<Rightarrow> engine \<Rightarrow> engine" where
  "devices_states_step bits i eng =
     (let device_state = (if py_slice bits (nat i) (nat i + 1) = ''1'' then STATE_ON else STATE_OFF) in
      if device_state = STATE_OFF
      then update_state (create_device_sensor_id i) device_state False eng
      else eng)"

definition parse_devices_states_packet :: "jconst \<Rightarrow> bytes \<Rightarrow> engine \<Rightarrow> error option \<times> engine" where
  "parse_devices_states_packet k packet eng =
     (let bits = devices_states_bitfield k packet in
      case devices_states_triggered_device k packet eng of
        (Some e, eng1) \<Rightarrow> (Some e, eng1)
      | (None, eng1) \<Rightarrow>
          (None, fold (devices_states_step bits) [1 .. CONF_NUMBER_OF_DEVICES (config eng1)] eng1))"

subsection \<open>Read step\<close>

text \<open>
  One pass through the body of the inner loop of \<^verbatim>\<open>_read_packets\<close> for the packet that
  \<^verbatim>\<open>stream.read\<close> returned. \<open>read_health\<close> is the part that maintains the health
  flag; its first component says whether the loop is left there. \<open>read_dispatch\<close> is the
  classification that follows, and \<open>read_packet\<close> puts both under the exception handler
  of the outer loop.
\<close>

definition read_health :: "bytes \<Rightarrow> engine \<Rightarrow> bool \<times> engine" where
  "read_health packet eng =
     (if packet = [] then (True, update_all_entities (eng\<lparr>last_update_success := False\<rparr>))
      else if \<not> last_update_success eng
      then (False, update_all_entities (eng\<lparr>last_update_success := True\<rparr>))
      else (False, eng))"

definition embedded_sections_step :: "jconst \<Rightarrow> bytes \<Rightarrow> nat \<Rightarrow> engine \<Rightarrow> engine" where
  "embedded_sections_step k packet i eng =
     (let possible_sections_states_prefix = py_slice packet i (i + 2) in
      if possible_sections_states_prefix = JABLOTRON_PACKET_SECTIONS_STATES_PREFIX
      then parse_section_states_packet k (drop i packet) eng
      else eng)"

definition read_dispatch :: "jconst \<Rightarrow> bytes \<Rightarrow> engine \<Rightarrow> error option \<times> engine" where
  "read_dispatch k packet eng =
     (let prefix = py_slice packet 0 2 in
      if prefix = JABLOTRON_PACKET_SECTIONS_STATES_PREFIX
      then (None, parse_section_states_packet k packet eng)
      else if is_device_state_packet prefix
      then (case parse_device_state_packet k packet eng of
              (Some e, eng1) \<Rightarrow> (Some e, eng1)
            | (None, eng1) \<Rightarrow>
                (None, fold (embedded_sections_step k packet) [0 ..< length packet - 1] eng1))
      else if py_slice packet 0 1 = JABLOTRON_PACKET_DEVICES_STATES_PREFIX
      then parse_devices_states_packet k packet eng
      else (None, eng))"

definition read_packet :: "jconst \<Rightarrow> bytes \<Rightarrow> engine \<Rightarrow> engine" where
  "read_packet k packet eng =
     (case read_health packet eng of
        (True, eng1) \<Rightarrow> eng1
      | (False, eng1) \<Rightarrow>
          (case read_dispatch k packet eng1 of
             (None, eng2) \<Rightarrow> eng2
           | (Some e, eng2) \<Rightarrow> update_all_entities (eng2\<lparr>last_update_success := False\<rparr>)))"

subsection \<open>Command encoder\<close>

text \<open>
  \<^verbatim>\<open>code[i:(i + 1)]\<close> is the empty string or a single character: \<open>None\<close> or the
  character at \<open>i\<close>.
\<close>

definition char_at :: "string \<Rightarrow> nat \<Rightarrow> char option" where
  "char_at code i = (if i < length code then Some (code ! i) else None)"

definition digit_value :: "char \<Rightarrow> int option" where
  "digit_value c =
     (let n = (of_char c :: nat) in if 48 \<le> n \<and> n \<le> 57 then Some (int n - 48) else None)"

definition hex_value :: "char \<Rightarrow> int option" where
  "hex_value c =
     (let n = (of_char c :: nat) in
      if 48 \<le> n \<and> n \<le> 57 then Some (int n - 48)
      else if 97 \<le> n \<and> n \<le> 102 then Some (int n - 87)
      else if 65 \<le> n \<and> n \<le> 70 then Some (int n - 55)
      else None)"

text \<open>The characters below 256 that \<^verbatim>\<open>int\<close> strips as white space.\<close>

definition is_space :: "char \<Rightarrow> bool" where
  "is_space c \<longleftrightarrow> (of_char c :: nat) \<in> set [9, 10, 11, 12, 13, 32, 133, 160]"

text \<open>\<^verbatim>\<open>int(s)\<close> for a string of at most one character.\<close>

definition py_int :: "char option \<Rightarrow> error + int" where
  "py_int s =
     (case s of
        None \<Rightarrow> Inl ValueError
      | Some c \<Rightarrow> (case digit_value c of None \<Rightarrow> Inl ValueError | Some d \<Rightarrow> Inr d))"

text \<open>
  \<^verbatim>\<open>int(f"{a}{s}", 16)\<close> for a character \<open>a\<close> and a string \<open>s\<close> of at most one
  character: two hexadecimal digits, or one digit with a sign before it or white space
  on either side.
\<close>

definition py_int_base16 :: "char \<Rightarrow> char option \<Rightarrow> error + int" where
  "py_int_base16 a s =
     (case s of
        None \<Rightarrow> (case hex_value a of None \<Rightarrow> Inl ValueError | Some x \<Rightarrow> Inr x)
      | Some b \<Rightarrow>
          (case (hex_value a, hex_value b) of
             (Some x, Some y) \<Rightarrow> Inr (16 * x + y)
           | (None, Some y) \<Rightarrow>
               if a = CHR ''+'' \<or> is_space a then Inr y
               else if a = CHR ''-'' then Inr (- y)
               else Inl ValueError
           | (Some x, None) \<Rightarrow> if is_space b then Inr x else Inl ValueError
           | (None, None) \<Rightarrow> Inl ValueError))"

definition code_number :: "string \<Rightarrow> nat \<Rightarrow> error + int" where
  "code_number code i =
     (let j = i + 4;
          first_number = char_at code j;
          second_number = char_at code i
      in case first_number of
           None \<Rightarrow> (case py_int second_number of Inl e \<Rightarrow> Inl e | Inr d \<Rightarrow> Inr (48 + d))
         | Some a \<Rightarrow> py_int_base16 a second_number)"

fun code_packet_loop :: "string \<Rightarrow> nat list \<Rightarrow> bytes \<Rightarrow> error + bytes" where
  "code_packet_loop code [] code_packet = Inr code_packet"
| "code_packet_loop code (i # rest) code_packet =
     (case code_number code i of
        Inl e \<Rightarrow> Inl e
      | Inr n \<Rightarrow>
          (case int_to_bytes n of
             Inl e \<Rightarrow> Inl e
           | Inr b \<Rightarrow> code_packet_loop code rest (code_packet @ b)))"

definition create_code_packet :: "string \<Rightarrow> error + bytes" where
  "create_code_packet code =
     code_packet_loop code [0, 1, 2, 3] [0x80, 0x08, 0x03, 0x39, 0x39, 0x39]"

definition int_packets :: "(string \<times> int) list" where
  "int_packets =
     [(STATE_ALARM_DISARMED, 143), (STATE_ALARM_ARMED_AWAY, 159), (STATE_ALARM_ARMED_NIGHT, 175)]"

definition modify_alarm_control_panel_section_state ::
  "int \<Rightarrow> string \<Rightarrow> string option \<Rightarrow> engine \<Rightarrow> error option \<times> engine" where
  "modify_alarm_control_panel_section_state section state code eng =
     (let code = (case code of None \<Rightarrow> CONF_PASSWORD (config eng) | Some c \<Rightarrow> c) in
      case map_of int_packets state of
        None \<Rightarrow> (Some KeyError, eng)
      | Some base \<Rightarrow>
          (case int_to_bytes (base + section) of
             Inl e \<Rightarrow> (Some e, eng)
           | Inr state_packet \<Rightarrow>
               (case create_code_packet code of
                  Inl e \<Rightarrow> (Some e, eng)
                | Inr code_packet \<Rightarrow>
                    (None, send_packet (code_packet @ [0x80, 0x02, 0x0d] @ state_packet) eng))))"

text \<open>
  Modelled from the spec: the repository only encodes the command byte, it has no
  decoder. The spec's decoding finds the base code that the byte lies above by a section
  index between 1 and \<^verbatim>\<open>MAX_SECTIONS\<close> and subtracts it; it has a result when exactly one
  base code qualifies.
\<close>

definition spec_decode_command :: "jconst \<Rightarrow> byte \<Rightarrow> (string \<times> int) option" where
  "spec_decode_command k b =
     (case filter (\<lambda>(state, base). 1 \<le> uint b - base \<and> uint b - base \<le> int (MAX_SECTIONS k))
             int_packets of
        [(state, base)] \<Rightarrow> Some (state, uint b - base)
      | _ \<Rightarrow> None)"

text \<open>
  The value of code byte \<open>i\<close> for a code of decimal digits in closed form, against which
  the loop of \<^verbatim>\<open>_create_code_packet\<close> is compared: the digit at \<open>i + 4\<close> as the high
  nibble over the digit at \<open>i\<close> where the code has a character at \<open>i + 4\<close>, and 48 plus
  the digit at \<open>i\<close> where it has none.
\<close>

definition spec_code_byte :: "string \<Rightarrow> nat \<Rightarrow> int" where
  "spec_code_byte code i =
     (if i + 4 < length code
      then 16 * (int (of_char (code ! (i + 4))) - 48) + (int (of_char (code ! i)) - 48)
      else 48 + (int (of_char (code ! i)) - 48))"

text \<open>
  A configuration under which no lookup of \<^verbatim>\<open>_parse_device_state_packet\<close> can raise:
  the list of device types covers the configured number of devices, and the three
  ignored types have a name in \<^verbatim>\<open>DEVICES\<close>.
\<close>

definition devices_configured :: "jconst \<Rightarrow> engine \<Rightarrow> bool" where
  "devices_configured k eng \<longleftrightarrow>
     CONF_NUMBER_OF_DEVICES (config eng) \<le> int (length (CONF_DEVICES (config eng)))
     \<and> DEVICE_KEYPAD k \<in> dom (DEVICES k) \<and> DEVICE_OTHER k \<in> dom (DEVICES k)
     \<and> DEVICE_EMPTY k \<in> dom (DEVICES k)"

subsection \<open>Example values\<close>

text \<open>
  A set of constants and a configuration on which the definitions are evaluated: four
  configured devices, the second one a keypad, and a central unit with a LAN module.
\<close>

definition demo_const :: jconst where
  "demo_const = \<lparr> sys_byteorder = Little, MAX_SECTIONS = 16,
      DEVICES = [''keypad'' \<mapsto> ''Keypad'', ''other'' \<mapsto> ''Other'', ''empty'' \<mapsto> ''Empty'',
                 ''motion'' \<mapsto> ''Motion detector'', ''siren_outdoor'' \<mapsto> ''Outdoor siren''],
      DEVICE_EMPTY = ''empty'', DEVICE_KEYPAD = ''keypad'',
      DEVICE_SIREN_OUTDOOR = ''siren_outdoor'', DEVICE_OTHER = ''other'' \<rparr>"

definition demo_config :: config where
  "demo_config = \<lparr> CONF_SERIAL_PORT = ''/dev/hidraw0'', CONF_PASSWORD = ''1234'',
      CONF_NUMBER_OF_DEVICES = 4,
      CONF_DEVICES = [''motion'', ''keypad'', ''siren_outdoor'', ''motion''] \<rparr>"

definition demo_engine :: engine where
  "demo_engine = \<lparr> config = demo_config, central_unit_model = ''JA-101K-LAN'',
      entities = [''section_1'', ''section_problem_sensor_1'', ''device_sensor_1''],
      states = [''section_1'' \<mapsto> ''disarmed'', ''section_problem_sensor_1'' \<mapsto> ''on'',
                ''device_sensor_1'' \<mapsto> ''on'', ''device_sensor_3'' \<mapsto> ''on''],
      stored_data = Map.empty, last_update_success = True,
      ha_state_writes = [], delay_saves = 0, sent_packets = [] \<rparr>"

text \<open>The example engine with the sensor of device 1 stored as off.\<close>

definition demo_engine_off :: engine where
  "demo_engine_off = demo_engine\<lparr>states := (states demo_engine)(''device_sensor_1'' \<mapsto> ''off'')\<rparr>"

section \<open>Verified properties\<close>

subsection \<open>Byte codec\<close>

lemma bytes_to_int_nil: "bytes_to_int k [] = 0"
  by (simp add: bytes_to_int_def split: byteorder.split)

lemma bytes_to_int_single: "bytes_to_int k [b] = uint b"
  by (simp add: bytes_to_int_def split: byteorder.split)

subsection \<open>Section state decoder\<close>

text \<open>
  C1. The mapping from a triplet to the alarm state follows the priority order of the
  specification: primary 11 or secondary 1 gives triggered whatever the other fields are;
  otherwise secondary 8 gives arming; otherwise secondary 4 gives pending; otherwise
  primary 3 gives triggered when tertiary is 1 and armed_away when it is not; otherwise
  primary 2 gives armed_night; every other triplet, whatever its primary value, gives
  disarmed.
\<close>

theorem alarm_state_priority:
  "(primary st = 11 \<or> secondary st = 1 \<longrightarrow>
      convert_jablotron_section_state_to_alarm_state st = STATE_ALARM_TRIGGERED)
   \<and> (primary st \<noteq> 11 \<and> secondary st = 8 \<longrightarrow>
      convert_jablotron_section_state_to_alarm_state st = STATE_ALARM_ARMING)
   \<and> (primary st \<noteq> 11 \<and> secondary st = 4 \<longrightarrow>
      convert_jablotron_section_state_to_alarm_state st = STATE_ALARM_PENDING)
   \<and> (primary st = 3 \<and> secondary st \<notin> {1, 8, 4} \<and> tertiary st = 1 \<longrightarrow>
      convert_jablotron_section_state_to_alarm_state st = STATE_ALARM_TRIGGERED)
   \<and> (primary st = 3 \<and> secondary st \<notin> {1, 8, 4} \<and> tertiary st \<noteq> 1 \<longrightarrow>
      convert_jablotron_section_state_to_alarm_state st = STATE_ALARM_ARMED_AWAY)
   \<and> (primary st = 2 \<and> secondary st \<notin> {1, 8, 4} \<longrightarrow>
      convert_jablotron_section_state_to_alarm_state st = STATE_ALARM_ARMED_NIGHT)
   \<and> (primary st \<notin> {11, 3, 2} \<and> secondary st \<notin> {1, 8, 4} \<longrightarrow>
      convert_jablotron_section_state_to_alarm_state st = STATE_ALARM_DISARMED)"
  by (simp add: convert_jablotron_section_state_to_alarm_state_def section_state_codes)

text \<open>One triplet for each line of the priority order.\<close>

theorem alarm_state_priority_witness:
  "convert_jablotron_section_state_to_alarm_state \<lparr>primary = 11, secondary = 0, tertiary = 17\<rparr> = STATE_ALARM_TRIGGERED
   \<and> convert_jablotron_section_state_to_alarm_state \<lparr>primary = 1, secondary = 1, tertiary = 0\<rparr> = STATE_ALARM_TRIGGERED
   \<and> convert_jablotron_section_state_to_alarm_state \<lparr>primary = 3, secondary = 8, tertiary = 0\<rparr> = STATE_ALARM_ARMING
   \<and> convert_jablotron_section_state_to_alarm_state \<lparr>primary = 1, secondary = 4, tertiary = 0\<rparr> = STATE_ALARM_PENDING
   \<and> convert_jablotron_section_state_to_alarm_state \<lparr>primary = 3, secondary = 0, tertiary = 1\<rparr> = STATE_ALARM_TRIGGERED
   \<and> convert_jablotron_section_state_to_alarm_state \<lparr>primary = 3, secondary = 0, tertiary = 0\<rparr> = STATE_ALARM_ARMED_AWAY
   \<and> convert_jablotron_section_state_to_alarm_state \<lparr>primary = 2, secondary = 2, tertiary = 0\<rparr> = STATE_ALARM_ARMED_NIGHT
   \<and> convert_jablotron_section_state_to_alarm_state \<lparr>primary = 7, secondary = 0, tertiary = 0\<rparr> = STATE_ALARM_DISARMED"
  using alarm_state_priority [of "\<lparr>primary = 11, secondary = 0, tertiary = 17\<rparr>"]
        alarm_state_priority [of "\<lparr>primary = 1, secondary = 1, tertiary = 0\<rparr>"]
        alarm_state_priority [of "\<lparr>primary = 3, secondary = 8, tertiary = 0\<rparr>"]
        alarm_state_priority [of "\<lparr>primary = 1, secondary = 4, tertiary = 0\<rparr>"]
        alarm_state_priority [of "\<lparr>primary = 3, secondary = 0, tertiary = 1\<rparr>"]
        alarm_state_priority [of "\<lparr>primary = 3, secondary = 0, tertiary = 0\<rparr>"]
        alarm_state_priority [of "\<lparr>primary = 2, secondary = 2, tertiary = 0\<rparr>"]
        alarm_state_priority [of "\<lparr>primary = 7, secondary = 0, tertiary = 0\<rparr>"]
  by simp

text \<open>
  C2. Decoding a record is a function of the record alone, defined on records of every
  length: on a record of two bytes the primary state is \<open>b0 mod 16\<close>, the secondary state
  \<open>(b0 - primary) / 16\<close> and the tertiary state the integer \<open>b1\<close> itself; on a record of one
  byte the tertiary state is 0, and on the empty record all three are 0.
\<close>

theorem parse_section_state_total:
  "parse_jablotron_section_state k [b0, b1] =
     \<lparr>primary = uint b0 mod 16, secondary = (uint b0 - uint b0 mod 16) div 16, tertiary = uint b1\<rparr>
   \<and> parse_jablotron_section_state k [b0] =
     \<lparr>primary = uint b0 mod 16, secondary = (uint b0 - uint b0 mod 16) div 16, tertiary = 0\<rparr>
   \<and> parse_jablotron_section_state k [] = \<lparr>primary = 0, secondary = 0, tertiary = 0\<rparr>
   \<and> parse_jablotron_section_state k [0x23, 0x11] = \<lparr>primary = 3, secondary = 2, tertiary = 17\<rparr>"
  by (simp add: parse_jablotron_section_state_def py_slice_def bytes_to_int_nil
      bytes_to_int_single Let_def)

subsection \<open>Device state decoder\<close>

lemma parse_device_state_packet_unrecognized:
  "convert_jablotron_device_state_to_state k packet
     (parse_device_number_from_state_packet k packet) = None \<Longrightarrow>
   snd (parse_device_state_packet k packet eng) = eng"
  by (simp add: parse_device_state_packet_def Let_def split: sum.split bool.split option.split)

lemma bytes_to_int_state_byte:
  "3 < length packet \<Longrightarrow> bytes_to_int k (py_slice packet 3 4) = uint (packet ! 3)"
  by (simp add: py_slice_def take_Suc_conv_app_nth bytes_to_int_single)

text \<open>
  C6. For every packet and device number \<open>n\<close>, the classification reads the state
  byte at offset 3, takes the correction 0 for \<open>n \<le> 36\<close>, -64 for \<open>37 \<le> n \<le> 96\<close> and
  -128 above, and the base \<open>(n + correction) * 4 + 104\<close>; the result is on exactly when
  the state byte is the base or the base plus 1, off exactly when it is the base plus 2
  or 3, and \<open>None\<close> for every other state byte, which the caller discards: it returns
  without a change to the engine.
\<close>

theorem device_state_classification:
  "let state = bytes_to_int k (py_slice packet 3 4);
       base = (n + (if n \<le> 36 then 0 else if n \<le> 96 then - 64 else - 128)) * 4 + 104
   in (convert_jablotron_device_state_to_state k packet n = Some STATE_ON
         \<longleftrightarrow> state = base \<or> state = base + 1)
    \<and> (convert_jablotron_device_state_to_state k packet n = Some STATE_OFF
         \<longleftrightarrow> state = base + 2 \<or> state = base + 3)
    \<and> (convert_jablotron_device_state_to_state k packet n = None
         \<longleftrightarrow> state \<notin> {base, base + 1, base + 2, base + 3})
    \<and> (3 < length packet \<longrightarrow> state = uint (packet ! 3))
    \<and> (n = parse_device_number_from_state_packet k packet
        \<and> convert_jablotron_device_state_to_state k packet n = None
        \<longrightarrow> snd (parse_device_state_packet k packet eng) = eng)"
proof -
  define state where "state = bytes_to_int k (py_slice packet 3 4)"
  define base where "base = (n + (if n \<le> 36 then 0 else if n \<le> 96 then - 64 else - 128)) * 4 + 104"
  have conv: "convert_jablotron_device_state_to_state k packet n =
      (if state = base + 2 \<or> state = base + 3 then Some STATE_OFF
       else if state = base \<or> state = base + 1 then Some STATE_ON else None)"
    by (simp add: convert_jablotron_device_state_to_state_def Let_def state_def base_def)
  have on: "convert_jablotron_device_state_to_state k packet n = Some STATE_ON
      \<longleftrightarrow> state = base \<or> state = base + 1"
    by (auto simp add: conv state_names)
  have off: "convert_jablotron_device_state_to_state k packet n = Some STATE_OFF
      \<longleftrightarrow> state = base + 2 \<or> state = base + 3"
    by (auto simp add: conv state_names)
  have none: "convert_jablotron_device_state_to_state k packet n = None
      \<longleftrightarrow> state \<notin> {base, base + 1, base + 2, base + 3}"
    by (auto simp add: conv)
  have byte: "3 < length packet \<longrightarrow> state = uint (packet ! 3)"
    by (simp add: state_def bytes_to_int_state_byte)
  have discard: "n = parse_device_number_from_state_packet k packet
        \<and> convert_jablotron_device_state_to_state k packet n = None
        \<longrightarrow> snd (parse_device_state_packet k packet eng) = eng"
    using parse_device_state_packet_unrecognized by blast
  from on off none byte discard show ?thesis
    unfolding Let_def state_def base_def by blast
qed

text \<open>Device 1 with the state bytes 108 (on), 110 (off) and 112 (unrecognized).\<close>

theorem device_state_classification_witness:
  "convert_jablotron_device_state_to_state demo_const [0x55, 0x08, 0x00, 0x6c, 0x40, 0x00] 1 = Some STATE_ON
   \<and> convert_jablotron_device_state_to_state demo_const [0x55, 0x08, 0x00, 0x6e, 0x40, 0x00] 1 = Some STATE_OFF
   \<and> convert_jablotron_device_state_to_state demo_const [0x55, 0x08, 0x00, 0x70, 0x40, 0x00] 1 = None
   \<and> snd (parse_device_state_packet demo_const [0x55, 0x08, 0x00, 0x70, 0x40, 0x00] demo_engine)
       = demo_engine"
proof -
  have n: "parse_device_number_from_state_packet demo_const [0x55, 0x08, 0x00, 0x70, 0x40, 0x00] = 1"
    by (simp add: parse_device_number_from_state_packet_def bytes_to_int_def demo_const_def py_slice_def)
  have s: "bytes_to_int demo_const (py_slice [0x55, 0x08, 0x00, 0x6c, 0x40, 0x00] 3 4) = 108"
     "bytes_to_int demo_const (py_slice [0x55, 0x08, 0x00, 0x6e, 0x40, 0x00] 3 4) = 110"
     "bytes_to_int demo_const (py_slice [0x55, 0x08, 0x00, 0x70, 0x40, 0x00] 3 4) = 112"
    by (simp_all add: bytes_to_int_def demo_const_def py_slice_def)
  show ?thesis
    using device_state_classification [of demo_const "[0x55, 0x08, 0x00, 0x6c, 0x40, 0x00]" 1 demo_engine]
      device_state_classification [of demo_const "[0x55, 0x08, 0x00, 0x6e, 0x40, 0x00]" 1 demo_engine]
      device_state_classification [of demo_const "[0x55, 0x08, 0x00, 0x70, 0x40, 0x00]" 1 demo_engine]
    by (simp add: Let_def n s)
qed


subsection \<open>Command encoder\<close>

lemma decimal_digit_values:
  assumes "c \<in> set ''0123456789''"
  shows "digit_value c = Some (int (of_char c) - 48)"
    and "hex_value c = Some (int (of_char c) - 48)"
    and "0 \<le> int (of_char c) - 48" and "int (of_char c) - 48 \<le> 9"
  using assms by (auto simp add: digit_value_def hex_value_def)

lemma code_number_digits:
  assumes len: "i < length code" and dig: "\<forall>c\<in>set code. c \<in> set ''0123456789''"
  shows "code_number code i =
     Inr (if i + 4 < length code
          then 16 * (int (of_char (code ! (i + 4))) - 48) + (int (of_char (code ! i)) - 48)
          else 48 + (int (of_char (code ! i)) - 48))"
proof -
  have ci: "code ! i \<in> set ''0123456789''" using len dig by (meson nth_mem)
  show ?thesis
  proof (cases "i + 4 < length code")
    case True
    then have cj: "code ! (i + 4) \<in> set ''0123456789''" using dig by (meson nth_mem)
    show ?thesis using True len
      by (simp add: code_number_def char_at_def py_int_base16_def
          decimal_digit_values(2) [OF ci] decimal_digit_values(2) [OF cj])
  next
    case False
    then show ?thesis using len
      by (simp add: code_number_def char_at_def py_int_def decimal_digit_values(1) [OF ci])
  qed
qed

lemma code_number_digits_range:
  assumes len: "i < length code" and dig: "\<forall>c\<in>set code. c \<in> set ''0123456789''"
  shows "\<exists>n. code_number code i = Inr n \<and> 0 \<le> n \<and> n \<le> 255
     \<and> n = (if i + 4 < length code
          then 16 * (int (of_char (code ! (i + 4))) - 48) + (int (of_char (code ! i)) - 48)
          else 48 + (int (of_char (code ! i)) - 48))"
proof -
  have ci: "code ! i \<in> set ''0123456789''" using len dig by (meson nth_mem)
  note bi = decimal_digit_values(3,4) [OF ci]
  show ?thesis
  proof (cases "i + 4 < length code")
    case True
    then have cj: "code ! (i + 4) \<in> set ''0123456789''" using dig by (meson nth_mem)
    note bj = decimal_digit_values(3,4) [OF cj]
    show ?thesis using True bi bj by (simp add: code_number_digits [OF len dig])
  next
    case False
    then show ?thesis using bi by (simp add: code_number_digits [OF len dig])
  qed
qed

lemma create_code_packet_digits:
  assumes len: "4 \<le> length code" and dig: "\<forall>c\<in>set code. c \<in> set ''0123456789''"
  shows "create_code_packet code =
     Inr [0x80, 0x08, 0x03, 0x39, 0x39, 0x39,
          word_of_int (spec_code_byte code 0), word_of_int (spec_code_byte code 1),
          word_of_int (spec_code_byte code 2), word_of_int (spec_code_byte code 3)]"
    and "\<forall>i<4. 0 \<le> spec_code_byte code i \<and> spec_code_byte code i \<le> 255"
proof -
  have r: "\<exists>n. code_number code i = Inr n \<and> 0 \<le> n \<and> n \<le> 255 \<and> n = spec_code_byte code i"
    if "i < 4" for i
    using code_number_digits_range [of i code] len dig that
    unfolding spec_code_byte_def by simp
  from r [of 0] r [of 1] r [of 2] r [of 3]
  show "create_code_packet code =
     Inr [0x80, 0x08, 0x03, 0x39, 0x39, 0x39,
          word_of_int (spec_code_byte code 0), word_of_int (spec_code_byte code 1),
          word_of_int (spec_code_byte code 2), word_of_int (spec_code_byte code 3)]"
    by (auto simp add: create_code_packet_def int_to_bytes_def)
  from r show "\<forall>i<4. 0 \<le> spec_code_byte code i \<and> spec_code_byte code i \<le> 255"
    by metis
qed

lemma uint_byte_of_int: "0 \<le> n \<Longrightarrow> n \<le> 255 \<Longrightarrow> uint (word_of_int n :: byte) = n"
  by (simp add: uint_word_of_int take_bit_eq_mod)

lemmas encoder_eval = create_code_packet_def code_number_def char_at_def py_int_def
  py_int_base16_def digit_value_def hex_value_def int_to_bytes_def is_space_def Let_def

text \<open>
  C9, as amended. The PIN code packet is the fixed prefix of six bytes
  \<^verbatim>\<open>80 08 03 39 39 39\<close> followed by four code bytes. For a code of at least four decimal
  digits, code byte \<open>i\<close> (from 0 to 3) is 16 times the digit at position \<open>i + 4\<close> plus the
  digit at position \<open>i\<close> when the code has a character at position \<open>i + 4\<close>, and 48 plus
  the digit at position \<open>i\<close> when it has none; each value fits a byte.
\<close>

theorem code_packet_layout:
  assumes "4 \<le> length code" and "\<forall>c\<in>set code. c \<in> set ''0123456789''"
  shows "create_code_packet code =
           Inr ([0x80, 0x08, 0x03, 0x39, 0x39, 0x39]
                @ map (\<lambda>i. word_of_int (spec_code_byte code i)) [0, 1, 2, 3])
         \<and> (\<forall>i<4. 0 \<le> spec_code_byte code i \<and> spec_code_byte code i \<le> 255
               \<and> uint (word_of_int (spec_code_byte code i) :: byte) = spec_code_byte code i)"
proof -
  have bounds: "\<forall>i<4. 0 \<le> spec_code_byte code i \<and> spec_code_byte code i \<le> 255"
    using create_code_packet_digits(2) [OF assms] .
  with create_code_packet_digits(1) [OF assms] show ?thesis
    by (simp add: uint_byte_of_int)
qed

text \<open>The PIN 1234 gives the code bytes 31 32 33 34, the PIN 12345678 gives 51 62 73 84.\<close>

theorem code_packet_layout_witness:
  "create_code_packet ''1234'' = Inr [0x80, 0x08, 0x03, 0x39, 0x39, 0x39, 0x31, 0x32, 0x33, 0x34]
   \<and> create_code_packet ''12345678'' = Inr [0x80, 0x08, 0x03, 0x39, 0x39, 0x39, 0x51, 0x62, 0x73, 0x84]"
  using code_packet_layout [of "''1234''"] code_packet_layout [of "''12345678''"]
  by (simp add: spec_code_byte_def)

text \<open>
  The claim as stated fails twice. The packet for 1234 has ten bytes, not a prefix of
  three bytes and four code bytes. And the code 123456 is shorter than eight characters,
  yet its code byte 0 is 0x51, the digit 5 over the digit 1, not 48 + 1.
\<close>

theorem code_packet_layout_counterexample:
  "create_code_packet ''1234'' = Inr [0x80, 0x08, 0x03, 0x39, 0x39, 0x39, 0x31, 0x32, 0x33, 0x34]
   \<and> create_code_packet ''1234'' \<noteq> Inr [0x80, 0x08, 0x03, 0x31, 0x32, 0x33, 0x34]
   \<and> create_code_packet ''123456'' = Inr [0x80, 0x08, 0x03, 0x39, 0x39, 0x39, 0x51, 0x62, 0x33, 0x34]
   \<and> length ''123456'' < 8 \<and> (0x51 :: byte) \<noteq> word_of_int (48 + 1)"
  by (simp add: encoder_eval)

text \<open>
  C10. For every code of four to eight decimal digits the PIN code packet is built
  without an exception and has exactly ten bytes; for the code 123 of three digits the
  operation raises ValueError instead.
\<close>

theorem code_packet_total:
  "(4 \<le> length code \<and> length code \<le> 8 \<and> (\<forall>c\<in>set code. c \<in> set ''0123456789'')
      \<longrightarrow> (\<exists>p. create_code_packet code = Inr p \<and> length p = 10))
   \<and> create_code_packet ''123'' = Inl ValueError"
proof -
  have "create_code_packet ''123'' = Inl ValueError"
    by (simp add: encoder_eval)
  moreover have "\<exists>p. create_code_packet code = Inr p \<and> length p = 10"
    if "4 \<le> length code" "\<forall>c\<in>set code. c \<in> set ''0123456789''"
    using create_code_packet_digits(1) [OF that] by simp
  ultimately show ?thesis by blast
qed

text \<open>The codes 1234 and 12345678.\<close>

theorem code_packet_total_witness:
  "(\<exists>p. create_code_packet ''1234'' = Inr p \<and> length p = 10)
   \<and> (\<exists>p. create_code_packet ''12345678'' = Inr p \<and> length p = 10)
   \<and> create_code_packet ''123'' = Inl ValueError"
  using code_packet_total [of "''1234''"] code_packet_total [of "''12345678''"]
  by simp

lemma int_packets_base:
  assumes "(state, base) \<in> set int_packets"
  shows "map_of int_packets state = Some base" and "base \<in> {143, 159, 175}"
  using assms by (auto simp add: int_packets_def state_names)

lemma spec_decode_command_encoded:
  assumes "MAX_SECTIONS k \<le> 16" and "1 \<le> section" and "section \<le> int (MAX_SECTIONS k)"
    and "(state, base) \<in> set int_packets"
  shows "spec_decode_command k (word_of_int (base + section)) = Some (state, section)"
proof -
  have u: "uint (word_of_int (base + section) :: byte) = base + section"
    by (rule uint_byte_of_int) (use assms int_packets_base(2) [OF assms(4)] in auto)
  show ?thesis
    using assms unfolding spec_decode_command_def u
    by (auto simp add: int_packets_def)
qed

text \<open>
  C5. With at most 16 sections, for every section from 1 to \<^verbatim>\<open>MAX_SECTIONS\<close>
  and each of the three target states, the command is the PIN packet, the fixed bytes
  \<^verbatim>\<open>80 02 0d\<close> and one byte whose value is the base code of the state plus the section;
  the three base codes are pairwise distinct, and decoding the byte gives the state and
  the section back.
\<close>

theorem command_round_trip:
  assumes "MAX_SECTIONS k \<le> 16" and "1 \<le> section" and "section \<le> int (MAX_SECTIONS k)"
    and "(state, base) \<in> set int_packets"
    and "create_code_packet (case code of None \<Rightarrow> CONF_PASSWORD (config eng) | Some c \<Rightarrow> c) = Inr pin"
  shows "modify_alarm_control_panel_section_state section state code eng =
           (None, eng\<lparr>sent_packets := sent_packets eng
                     @ [pin @ [0x80, 0x02, 0x0d] @ [word_of_int (base + section)]]\<rparr>)
         \<and> uint (word_of_int (base + section) :: byte) = base + section
         \<and> spec_decode_command k (word_of_int (base + section)) = Some (state, section)
         \<and> distinct (map snd int_packets)"
proof -
  have b: "base \<in> {143, 159, 175}" and m: "map_of int_packets state = Some base"
    using int_packets_base [OF assms(4)] by simp_all
  have r: "0 \<le> base + section" "base + section \<le> 255"
    using b assms(1-3) by auto
  then have u: "uint (word_of_int (base + section) :: byte) = base + section"
    by (rule uint_byte_of_int)
  have "modify_alarm_control_panel_section_state section state code eng =
           (None, eng\<lparr>sent_packets := sent_packets eng
                     @ [pin @ [0x80, 0x02, 0x0d] @ [word_of_int (base + section)]]\<rparr>)"
    using r assms(5)
    by (simp add: modify_alarm_control_panel_section_state_def m int_to_bytes_def send_packet_def)
  moreover have "distinct (map snd int_packets)"
    by (simp add: int_packets_def)
  ultimately show ?thesis
    using u spec_decode_command_encoded [OF assms(1-4)] by simp
qed

text \<open>Disarming section 2 with the configured PIN 1234: the command byte is 0x91.\<close>

theorem command_round_trip_witness:
  "modify_alarm_control_panel_section_state 2 STATE_ALARM_DISARMED None demo_engine =
     (None, demo_engine\<lparr>sent_packets :=
        [[0x80, 0x08, 0x03, 0x39, 0x39, 0x39, 0x31, 0x32, 0x33, 0x34, 0x80, 0x02, 0x0d, 0x91]]\<rparr>)
   \<and> spec_decode_command demo_const 0x91 = Some (STATE_ALARM_DISARMED, 2)"
proof -
  have pin: "create_code_packet (case None of None \<Rightarrow> CONF_PASSWORD (config demo_engine) | Some c \<Rightarrow> c)
      = Inr [0x80, 0x08, 0x03, 0x39, 0x39, 0x39, 0x31, 0x32, 0x33, 0x34]"
    by (simp add: demo_engine_def demo_config_def encoder_eval)
  have st: "(STATE_ALARM_DISARMED, 143) \<in> set int_packets"
    by (simp add: int_packets_def)
  have k: "MAX_SECTIONS demo_const \<le> 16" "(2::int) \<le> int (MAX_SECTIONS demo_const)"
    by (simp_all add: demo_const_def)
  show ?thesis
    using command_round_trip [OF k(1) _ k(2) st pin]
    by (simp add: demo_engine_def)
qed


text \<open>
  With 17 sections the round trip is lost: the byte 160 is section 17 above the base code
  of disarming and section 1 above the base code of arming away.
\<close>

lemma command_byte_ambiguous_beyond_16:
  "spec_decode_command (demo_const\<lparr>MAX_SECTIONS := 17\<rparr>) 160 = None"
  by (simp add: spec_decode_command_def int_packets_def)

subsection \<open>State store\<close>

lemma states_store_state: "states (store_state ident state eng) = states eng"
  by (simp add: store_state_def Let_def)

lemma entities_store_state: "entities (store_state ident state eng) = entities eng"
  by (simp add: store_state_def Let_def)

lemma ha_state_writes_store_state:
  "ha_state_writes (store_state ident state eng) = ha_state_writes eng"
  by (simp add: store_state_def Let_def)

lemma delay_saves_store_state:
  "delay_saves (store_state ident state eng) = Suc (delay_saves eng)"
  by (simp add: store_state_def Let_def)

lemma update_state_cases:
  "update_state ident state store eng =
     (if states eng ident = Some state then eng
      else let eng1 = eng\<lparr>states := (states eng)(ident \<mapsto> state)\<rparr>;
               eng2 = (if ident \<in> set (entities eng)
                       then eng1\<lparr>ha_state_writes := ha_state_writes eng @ [ident]\<rparr>
                       else eng1)
           in if store then store_state ident state eng2 else eng2)"
proof -
  have "(ident \<in> dom (states eng) \<and> Some state = states eng ident)
      \<longleftrightarrow> states eng ident = Some state"
    by auto
  then show ?thesis
    unfolding update_state_def by (simp add: Let_def)
qed

lemma update_state_unchanged:
  "states eng ident = Some state \<Longrightarrow> update_state ident state store eng = eng"
  by (simp add: update_state_cases)

lemma states_update_state:
  "states (update_state ident state store eng) = (states eng)(ident \<mapsto> state)"
  by (auto simp add: update_state_cases Let_def states_store_state)

lemma entities_update_state: "entities (update_state ident state store eng) = entities eng"
  by (simp add: update_state_cases Let_def entities_store_state)

lemma config_update_state: "config (update_state ident state store eng) = config eng"
  by (simp add: update_state_cases Let_def store_state_def)

lemma ha_state_writes_update_state:
  "ha_state_writes (update_state ident state store eng) =
     (if states eng ident = Some state \<or> ident \<notin> set (entities eng) then ha_state_writes eng
      else ha_state_writes eng @ [ident])"
  by (simp add: update_state_cases Let_def ha_state_writes_store_state)

lemma delay_saves_update_state:
  "delay_saves (update_state ident state store eng) =
     (if states eng ident = Some state \<or> \<not> store then delay_saves eng
      else Suc (delay_saves eng))"
  by (simp add: update_state_cases Let_def delay_saves_store_state)

text \<open>
  C8. Updating an id to the value already stored for it returns the engine as it
  is: no entity is notified and nothing is handed to the store. Hence the second of two
  equal writes in a row changes nothing, and both together notify the subscriber of the
  id exactly once when the first write changes the value (and not at all when it does
  not, or when nobody subscribed), and save at most once.
\<close>

theorem update_state_idempotent:
  "(states eng ident = Some state \<longrightarrow> update_state ident state store eng = eng)
   \<and> update_state ident state store' (update_state ident state store eng)
       = update_state ident state store eng
   \<and> ha_state_writes (update_state ident state store' (update_state ident state store eng))
       = (if states eng ident \<noteq> Some state \<and> ident \<in> set (entities eng)
          then ha_state_writes eng @ [ident] else ha_state_writes eng)
   \<and> delay_saves (update_state ident state store' (update_state ident state store eng))
       = (if states eng ident \<noteq> Some state \<and> store
          then Suc (delay_saves eng) else delay_saves eng)"
proof -
  have second: "update_state ident state store' (update_state ident state store eng)
       = update_state ident state store eng"
    by (rule update_state_unchanged) (simp add: states_update_state)
  show ?thesis
    unfolding second
    by (auto simp add: update_state_unchanged ha_state_writes_update_state
        delay_saves_update_state)
qed

text \<open>The fields of the example engine.\<close>

lemma demo_engine_fields:
  "config demo_engine = demo_config"
  "central_unit_model demo_engine = ''JA-101K-LAN''"
  "entities demo_engine = [''section_1'', ''section_problem_sensor_1'', ''device_sensor_1'']"
  "last_update_success demo_engine = True"
  "ha_state_writes demo_engine = []"
  "delay_saves demo_engine = 0"
  "sent_packets demo_engine = []"
  by (simp_all add: demo_engine_def)

lemma demo_engine_states:
  "states demo_engine ''section_1'' = Some ''disarmed''"
  "states demo_engine ''section_problem_sensor_1'' = Some ''on''"
  "states demo_engine ''device_sensor_1'' = Some ''on''"
  "states demo_engine ''device_sensor_2'' = None"
  "states demo_engine ''device_sensor_3'' = Some ''on''"
  "states demo_engine ''device_sensor_4'' = None"
  "states demo_engine ''lan'' = None"
  by (simp_all add: demo_engine_def)

text \<open>
  Writing the stored value on, writing off twice to a subscribed sensor, and writing off
  twice with the persistence flag to an id that is not yet stored.
\<close>

theorem update_state_idempotent_witness:
  "update_state ''device_sensor_1'' ''on'' True demo_engine = demo_engine
   \<and> update_state ''device_sensor_1'' ''off'' False
        (update_state ''device_sensor_1'' ''off'' False demo_engine)
       = update_state ''device_sensor_1'' ''off'' False demo_engine
   \<and> ha_state_writes (update_state ''device_sensor_1'' ''off'' False
        (update_state ''device_sensor_1'' ''off'' False demo_engine)) = [''device_sensor_1'']
   \<and> delay_saves (update_state ''lan'' ''off'' True
        (update_state ''lan'' ''off'' True demo_engine)) = 1"
proof -
  note on = update_state_idempotent [of demo_engine "''device_sensor_1''" "''on''" True True]
  note off = update_state_idempotent [of demo_engine "''device_sensor_1''" "''off''" False False]
  note lan = update_state_idempotent [of demo_engine "''lan''" "''off''" True True]
  have "update_state ''device_sensor_1'' ''on'' True demo_engine = demo_engine"
    using on [THEN conjunct1] by (simp add: demo_engine_states)
  moreover have "update_state ''device_sensor_1'' ''off'' False
        (update_state ''device_sensor_1'' ''off'' False demo_engine)
       = update_state ''device_sensor_1'' ''off'' False demo_engine"
    using off [THEN conjunct2, THEN conjunct1] .
  moreover have "ha_state_writes (update_state ''device_sensor_1'' ''off'' False
        (update_state ''device_sensor_1'' ''off'' False demo_engine)) = [''device_sensor_1'']"
    using off [THEN conjunct2, THEN conjunct2, THEN conjunct1]
    by (simp add: demo_engine_states demo_engine_fields)
  moreover have "delay_saves (update_state ''lan'' ''off'' True
        (update_state ''lan'' ''off'' True demo_engine)) = 1"
    using lan [THEN conjunct2, THEN conjunct2, THEN conjunct2]
    by (simp add: demo_engine_states demo_engine_fields)
  ultimately show ?thesis by blast
qed

subsection \<open>Identifiers\<close>

lemma str_nat_not_empty: "str_nat n \<noteq> []"
  by (subst str_nat.simps) simp

lemma digit_char_inject:
  assumes "char_of (48 + a :: nat) = char_of (48 + b :: nat)" and "a < 10" and "b < 10"
  shows "a = b"
proof -
  have "of_char (char_of (48 + a)) = (of_char (char_of (48 + b)) :: nat)"
    using assms(1) by simp
  then show ?thesis using assms(2,3) by simp
qed

lemma str_nat_chars: "c \<in> set (str_nat n) \<Longrightarrow> \<exists>d<10. c = char_of (48 + d :: nat)"
proof (induction n rule: str_nat.induct)
  case (1 n)
  show ?case
  proof (cases "n < 10")
    case True
    with "1.prems" show ?thesis by (subst (asm) str_nat.simps) auto
  next
    case False
    with "1.prems" have "c \<in> set (str_nat (n div 10)) \<or> c = char_of (48 + n mod 10)"
      by (subst (asm) str_nat.simps) auto
    then show ?thesis
    proof
      assume "c \<in> set (str_nat (n div 10))"
      with "1.IH" False show ?thesis by blast
    next
      assume "c = char_of (48 + n mod 10)"
      moreover have "n mod 10 < 10" by simp
      ultimately show ?thesis by blast
    qed
  qed
qed

lemma str_nat_no_letter: "CHR ''p'' \<notin> set (str_nat n)" "CHR ''-'' \<notin> set (str_nat n)"
proof -
  have "c \<notin> set (str_nat n)" if "(of_char c :: nat) < 48 \<or> 57 < (of_char c :: nat)" for c
  proof
    assume "c \<in> set (str_nat n)"
    then obtain d :: nat where "d < 10" "c = char_of (48 + d)"
      using str_nat_chars by blast
    then have "(of_char c :: nat) = 48 + d" by simp
    with \<open>d < 10\<close> that show False by simp
  qed
  then show "CHR ''p'' \<notin> set (str_nat n)" "CHR ''-'' \<notin> set (str_nat n)" by simp_all
qed

lemma str_nat_inject: "str_nat m = str_nat n \<Longrightarrow> m = n"
proof (induction m arbitrary: n rule: str_nat.induct)
  case (1 m)
  show ?case
  proof (cases "m < 10")
    case m: True
    show ?thesis
    proof (cases "n < 10")
      case True
      with m "1.prems" have "char_of (48 + m) = (char_of (48 + n) :: char)"
        by (simp add: str_nat.simps [of m] str_nat.simps [of n])
      then show ?thesis using m True by (rule digit_char_inject)
    next
      case False
      with m "1.prems" have "[char_of (48 + m)] = str_nat (n div 10) @ [char_of (48 + n mod 10)]"
        by (simp add: str_nat.simps [of m] str_nat.simps [of n])
      then show ?thesis using str_nat_not_empty [of "n div 10"] by simp
    qed
  next
    case m: False
    show ?thesis
    proof (cases "n < 10")
      case True
      with m "1.prems" have "str_nat (m div 10) @ [char_of (48 + m mod 10)] = [char_of (48 + n)]"
        by (simp add: str_nat.simps [of m] str_nat.simps [of n])
      then show ?thesis using str_nat_not_empty [of "m div 10"] by simp
    next
      case False
      with m "1.prems" have "str_nat (m div 10) = str_nat (n div 10)"
        and "char_of (48 + m mod 10) = (char_of (48 + n mod 10) :: char)"
        by (simp_all add: str_nat.simps [of m] str_nat.simps [of n])
      then have "m div 10 = n div 10" and "m mod 10 = n mod 10"
        using "1.IH" [OF m] digit_char_inject [of "m mod 10" "n mod 10"] by auto
      then have "m div 10 * 10 + m mod 10 = n div 10 * 10 + n mod 10" by simp
      then show ?thesis by (simp only: div_mult_mod_eq)
    qed
  qed
qed

lemma section_ids_inject:
  "create_section_alarm_id m = create_section_alarm_id n \<longleftrightarrow> m = n"
  "create_section_problem_sensor_id m = create_section_problem_sensor_id n \<longleftrightarrow> m = n"
  by (auto simp add: create_section_alarm_id_def create_section_problem_sensor_id_def
      dest: str_nat_inject)

lemma section_ids_apart:
  "create_section_alarm_id m \<noteq> create_section_problem_sensor_id n"
  "create_section_problem_sensor_id n \<noteq> create_section_alarm_id m"
proof -
  have "str_nat m \<noteq> ''problem_sensor_'' @ str_nat n"
    using str_nat_no_letter(1) [of m] by (metis append_Cons list.set_intros(1))
  then show "create_section_alarm_id m \<noteq> create_section_problem_sensor_id n"
    "create_section_problem_sensor_id n \<noteq> create_section_alarm_id m"
    by (auto simp add: create_section_alarm_id_def create_section_problem_sensor_id_def)
qed

lemma str_int_inject: "str_int i = str_int j \<Longrightarrow> i = j"
proof -
  assume eq: "str_int i = str_int j"
  have neg: "False" if "a < 0" "0 \<le> b" "str_int a = str_int b" for a b
  proof -
    from that have "CHR ''-'' # str_nat (nat (- a)) = str_nat (nat b)"
      by (simp add: str_int_def)
    then have "CHR ''-'' \<in> set (str_nat (nat b))" by (metis list.set_intros(1))
    then show False using str_nat_no_letter(2) by blast
  qed
  consider "i < 0" "j < 0" | "0 \<le> i" "0 \<le> j" | "i < 0" "0 \<le> j" | "0 \<le> i" "j < 0"
    by linarith
  then show ?thesis
  proof cases
    case 1
    with eq have "nat (- i) = nat (- j)" by (auto simp add: str_int_def dest: str_nat_inject)
    with 1 show ?thesis by simp
  next
    case 2
    with eq have "nat i = nat j" by (auto simp add: str_int_def dest: str_nat_inject)
    with 2 show ?thesis by simp
  next
    case 3
    then show ?thesis using neg eq by blast
  next
    case 4
    then show ?thesis using neg [of j i] eq by simp
  qed
qed

lemma device_sensor_id_inject:
  "create_device_sensor_id i = create_device_sensor_id j \<longleftrightarrow> i = j"
  by (auto simp add: create_device_sensor_id_def dest: str_int_inject)


subsection \<open>Sections states packet\<close>

lemma scan_sections_unroll:
  "0 < remaining \<Longrightarrow>
   scan_sections packet section remaining =
     (let state = py_slice packet (section * 2) (section * 2 + 2)
      in if state = [0x07, 0x00] then []
         else (section, state) # scan_sections packet (Suc section) (remaining - 1))"
  by (cases remaining) (simp_all add: Let_def)

lemma scan_sections_from: "(s, r) \<in> set (scan_sections packet start remaining) \<Longrightarrow> start \<le> s"
proof (induction remaining arbitrary: start)
  case 0
  then show ?case by simp
next
  case (Suc remaining)
  then show ?case by (fastforce simp add: Let_def split: if_splits)
qed

lemma scan_sections_distinct: "distinct (map fst (scan_sections packet start remaining))"
proof (induction remaining arbitrary: start)
  case 0
  then show ?case by simp
next
  case (Suc remaining)
  have "start \<notin> fst ` set (scan_sections packet (Suc start) remaining)"
    using scan_sections_from [of start _ packet "Suc start" remaining] by fastforce
  with Suc show ?case by (simp add: Let_def)
qed

lemma states_section_states_step:
  "states (section_states_step k (s, r) eng) =
     (let st = parse_jablotron_section_state k r;
          m = (states eng)(create_section_alarm_id s \<mapsto>
                convert_jablotron_section_state_to_alarm_state st)
      in if secondary st = 0 \<or> secondary st = 2
         then m(create_section_problem_sensor_id s \<mapsto>
                convert_jablotron_section_state_to_problem_sensor_state st)
         else m)"
  by (simp add: section_states_step_def Let_def states_update_state section_state_codes)

lemma fold_sections_other:
  assumes "s \<notin> fst ` set items"
  shows "states (fold (section_states_step k) items eng) (create_section_alarm_id s)
           = states eng (create_section_alarm_id s)"
    and "states (fold (section_states_step k) items eng) (create_section_problem_sensor_id s)
           = states eng (create_section_problem_sensor_id s)"
  using assms
proof (induction items arbitrary: eng)
  case Nil
  {
    case 1 show ?case by simp
  next
    case 2 show ?case by simp
  }
next
  case (Cons item items)
  obtain s' r where item: "item = (s', r)" by (cases item)
  {
    case 1
    with Cons.IH(1) [of "section_states_step k item eng"] item show ?case
      by (simp add: states_section_states_step Let_def section_ids_inject section_ids_apart)
  next
    case 2
    with Cons.IH(2) [of "section_states_step k item eng"] item show ?case
      by (simp add: states_section_states_step Let_def section_ids_inject section_ids_apart)
  }
qed

lemma fold_sections_problem_unchanged:
  assumes "\<forall>(s, r) \<in> set items. s = n \<longrightarrow> secondary (parse_jablotron_section_state k r) \<notin> {0, 2}"
  shows "states (fold (section_states_step k) items eng) (create_section_problem_sensor_id n)
           = states eng (create_section_problem_sensor_id n)"
  using assms
proof (induction items arbitrary: eng)
  case Nil
  then show ?case by simp
next
  case (Cons item items)
  obtain s r where item: "item = (s, r)" by (cases item)
  have "states (section_states_step k item eng) (create_section_problem_sensor_id n)
      = states eng (create_section_problem_sensor_id n)"
    using Cons.prems item
    by (auto simp add: states_section_states_step Let_def section_ids_inject section_ids_apart)
  moreover have "states (fold (section_states_step k) items (section_states_step k item eng))
        (create_section_problem_sensor_id n)
      = states (section_states_step k item eng) (create_section_problem_sensor_id n)"
    using Cons.prems by (intro Cons.IH) simp
  ultimately show ?case by simp
qed

lemma fold_sections_item:
  assumes mem: "(s, r) \<in> set items" and dist: "distinct (map fst items)"
  shows "states (fold (section_states_step k) items eng) (create_section_alarm_id s)
           = Some (convert_jablotron_section_state_to_alarm_state
                     (parse_jablotron_section_state k r))"
    and "secondary (parse_jablotron_section_state k r) = 0
           \<or> secondary (parse_jablotron_section_state k r) = 2 \<Longrightarrow>
         states (fold (section_states_step k) items eng) (create_section_problem_sensor_id s)
           = Some (convert_jablotron_section_state_to_problem_sensor_state
                     (parse_jablotron_section_state k r))"
proof -
  from mem obtain pre post where items: "items = pre @ (s, r) # post"
    by (meson split_list)
  with dist have post: "s \<notin> fst ` set post" by auto
  define eng1 where "eng1 = section_states_step k (s, r) (fold (section_states_step k) pre eng)"
  have run: "fold (section_states_step k) items eng = fold (section_states_step k) post eng1"
    by (simp add: items eng1_def)
  show "states (fold (section_states_step k) items eng) (create_section_alarm_id s)
           = Some (convert_jablotron_section_state_to_alarm_state
                     (parse_jablotron_section_state k r))"
    unfolding run fold_sections_other(1) [OF post]
    by (simp add: eng1_def states_section_states_step Let_def section_ids_apart)
  show "states (fold (section_states_step k) items eng) (create_section_problem_sensor_id s)
           = Some (convert_jablotron_section_state_to_problem_sensor_state
                     (parse_jablotron_section_state k r))"
    if "secondary (parse_jablotron_section_state k r) = 0
           \<or> secondary (parse_jablotron_section_state k r) = 2"
    unfolding run fold_sections_other(2) [OF post]
    using that by (simp add: eng1_def states_section_states_step Let_def)
qed

text \<open>
  C3. When a sections states packet is processed, every section of the packet gets
  its alarm state stored. The stored state of its problem sensor is left as it was when
  the secondary state is 1 (triggered), 4 (pending) or 8 (arming), and becomes on for the
  secondary state 2 (problem) and off for 0 (ok). No problem sensor changes unless its
  section is in the packet with the secondary state 0 or 2.
\<close>

theorem section_problem_sensor_frame:
  "((section, record) \<in> set (parse_sections_states_packet k packet) \<longrightarrow>
      states (parse_section_states_packet k packet eng) (create_section_alarm_id section)
        = Some (convert_jablotron_section_state_to_alarm_state
                  (parse_jablotron_section_state k record))
      \<and> (secondary (parse_jablotron_section_state k record) \<in> {1, 4, 8} \<longrightarrow>
           states (parse_section_states_packet k packet eng)
               (create_section_problem_sensor_id section)
             = states eng (create_section_problem_sensor_id section))
      \<and> (secondary (parse_jablotron_section_state k record) \<in> {0, 2} \<longrightarrow>
           states (parse_section_states_packet k packet eng)
               (create_section_problem_sensor_id section)
             = Some (if secondary (parse_jablotron_section_state k record) = 2
                     then STATE_ON else STATE_OFF)))
   \<and> (states (parse_section_states_packet k packet eng) (create_section_problem_sensor_id n)
         \<noteq> states eng (create_section_problem_sensor_id n) \<longrightarrow>
       (\<exists>r. (n, r) \<in> set (parse_sections_states_packet k packet)
             \<and> secondary (parse_jablotron_section_state k r) \<in> {0, 2}))"
proof -
  let ?items = "parse_sections_states_packet k packet"
  have dist: "distinct (map fst ?items)"
    by (simp add: parse_sections_states_packet_def scan_sections_distinct)
  have run: "parse_section_states_packet k packet eng = fold (section_states_step k) ?items eng"
    by (simp add: parse_section_states_packet_def)
  have only: "\<exists>r. (n, r) \<in> set ?items \<and> secondary (parse_jablotron_section_state k r) \<in> {0, 2}"
    if "states (parse_section_states_packet k packet eng) (create_section_problem_sensor_id n)
         \<noteq> states eng (create_section_problem_sensor_id n)"
  proof (rule ccontr)
    assume "\<not> ?thesis"
    then have "\<forall>(s, r) \<in> set ?items. s = n \<longrightarrow>
        secondary (parse_jablotron_section_state k r) \<notin> {0, 2}"
      by blast
    from fold_sections_problem_unchanged [OF this] that show False
      by (simp add: run)
  qed
  have item: "states (parse_section_states_packet k packet eng) (create_section_alarm_id section)
        = Some (convert_jablotron_section_state_to_alarm_state
                  (parse_jablotron_section_state k record))
      \<and> (secondary (parse_jablotron_section_state k record) \<in> {1, 4, 8} \<longrightarrow>
           states (parse_section_states_packet k packet eng)
               (create_section_problem_sensor_id section)
             = states eng (create_section_problem_sensor_id section))
      \<and> (secondary (parse_jablotron_section_state k record) \<in> {0, 2} \<longrightarrow>
           states (parse_section_states_packet k packet eng)
               (create_section_problem_sensor_id section)
             = Some (if secondary (parse_jablotron_section_state k record) = 2
                     then STATE_ON else STATE_OFF))"
    if mem: "(section, record) \<in> set ?items"
  proof (intro conjI impI)
    show "states (parse_section_states_packet k packet eng) (create_section_alarm_id section)
        = Some (convert_jablotron_section_state_to_alarm_state
                  (parse_jablotron_section_state k record))"
      unfolding run by (rule fold_sections_item(1) [OF mem dist])
  next
    assume sec: "secondary (parse_jablotron_section_state k record) \<in> {1, 4, 8}"
    have "r = record" if "(section, r) \<in> set ?items" for r
      using that mem dist by (meson eq_key_imp_eq_value)
    with sec have "\<forall>(s, r) \<in> set ?items. s = section \<longrightarrow>
        secondary (parse_jablotron_section_state k r) \<notin> {0, 2}"
      by auto
    from fold_sections_problem_unchanged [OF this]
    show "states (parse_section_states_packet k packet eng)
               (create_section_problem_sensor_id section)
             = states eng (create_section_problem_sensor_id section)"
      by (simp add: run)
  next
    assume sec: "secondary (parse_jablotron_section_state k record) \<in> {0, 2}"
    then have "secondary (parse_jablotron_section_state k record) = 0
           \<or> secondary (parse_jablotron_section_state k record) = 2"
      by simp
    from fold_sections_item(2) [OF mem dist this]
    show "states (parse_section_states_packet k packet eng)
               (create_section_problem_sensor_id section)
             = Some (if secondary (parse_jablotron_section_state k record) = 2
                     then STATE_ON else STATE_OFF)"
      by (simp add: run convert_jablotron_section_state_to_problem_sensor_state_def
          section_state_codes)
  qed
  from only item show ?thesis by blast
qed


text \<open>
  Section 1 of the example engine, whose problem sensor is on: a packet with the record
  \<^verbatim>\<open>13 00\<close> (armed, secondary state triggered) and one with \<^verbatim>\<open>03 00\<close> (armed, ok).
\<close>

lemma demo_section_ids:
  "create_section_alarm_id (Suc 0) = ''section_1''"
  "create_section_problem_sensor_id (Suc 0) = ''section_problem_sensor_1''"
  by code_simp+

lemma demo_sections_packets:
  "parse_sections_states_packet demo_const [0x51, 0x22, 0x13, 0x00, 0x07, 0x00] = [(1, [0x13, 0x00])]"
  "parse_sections_states_packet demo_const [0x51, 0x22, 0x03, 0x00, 0x07, 0x00] = [(1, [0x03, 0x00])]"
  "parse_jablotron_section_state demo_const [0x13, 0x00] = \<lparr>primary = 3, secondary = 1, tertiary = 0\<rparr>"
  "parse_jablotron_section_state demo_const [0x03, 0x00] = \<lparr>primary = 3, secondary = 0, tertiary = 0\<rparr>"
  by (simp_all add: parse_sections_states_packet_def demo_const_def scan_sections_unroll
      py_slice_def parse_jablotron_section_state_def bytes_to_int_def)

theorem section_problem_sensor_frame_witness:
  "states (parse_section_states_packet demo_const [0x51, 0x22, 0x13, 0x00, 0x07, 0x00] demo_engine)
       ''section_1'' = Some ''triggered''
   \<and> states (parse_section_states_packet demo_const [0x51, 0x22, 0x13, 0x00, 0x07, 0x00] demo_engine)
       ''section_problem_sensor_1'' = Some ''on''
   \<and> states (parse_section_states_packet demo_const [0x51, 0x22, 0x03, 0x00, 0x07, 0x00] demo_engine)
       ''section_1'' = Some ''armed_away''
   \<and> states (parse_section_states_packet demo_const [0x51, 0x22, 0x03, 0x00, 0x07, 0x00] demo_engine)
       ''section_problem_sensor_1'' = Some ''off''"
  using section_problem_sensor_frame
      [of 1 "[0x13, 0x00]" demo_const "[0x51, 0x22, 0x13, 0x00, 0x07, 0x00]" demo_engine 1]
    section_problem_sensor_frame
      [of 1 "[0x03, 0x00]" demo_const "[0x51, 0x22, 0x03, 0x00, 0x07, 0x00]" demo_engine 1]
  by (simp add: demo_sections_packets demo_section_ids demo_engine_states
      convert_jablotron_section_state_to_alarm_state_def section_state_codes state_names)


subsection \<open>Devices states packet\<close>

lemma int_from_bytes_little_nonneg: "0 \<le> int_from_bytes_little bs"
  by (induction bs) simp_all

lemma bytes_to_int_nonneg: "0 \<le> bytes_to_int k bs"
  by (simp add: bytes_to_int_def int_from_bytes_little_nonneg split: byteorder.split)

lemma parse_device_number_nonneg: "0 \<le> parse_device_number_from_state_packet k packet"
  by (simp add: parse_device_number_from_state_packet_def bytes_to_int_nonneg
      pos_imp_zdiv_nonneg_iff)

lemma get_device_type_configured:
  assumes "devices_configured k eng" and "1 \<le> n" and "n \<le> CONF_NUMBER_OF_DEVICES (config eng)"
  shows "get_device_type eng n = Inr (CONF_DEVICES (config eng) ! nat (n - 1))"
  using assms by (simp add: get_device_type_def py_index_def devices_configured_def)

lemma parse_device_state_packet_returns:
  assumes "devices_configured k eng"
  shows "fst (parse_device_state_packet k packet eng) = None
         \<and> config (snd (parse_device_state_packet k packet eng)) = config eng"
proof -
  define n where "n = parse_device_number_from_state_packet k packet"
  define good :: "error option \<times> engine \<Rightarrow> bool"
    where "good r \<longleftrightarrow> fst r = None \<and> config (snd r) = config eng" for r
  have leaf: "good (None, eng)" "\<And>i s b. good (None, update_state i s b eng)"
    by (simp_all add: good_def config_update_state)
  have n0: "0 \<le> n" by (simp add: n_def parse_device_number_nonneg)
  have "good (parse_device_state_packet k packet eng)"
  proof (cases "n = 0")
    case True
    then show ?thesis
      by (simp add: parse_device_state_packet_def n_def [symmetric] leaf)
  next
    case nz: False
    show ?thesis
    proof (cases "get_lan_connection_device_number eng = Some n")
      case True
      then show ?thesis using nz
        by (simp add: parse_device_state_packet_def n_def [symmetric] Let_def leaf
            split: option.split)
    next
      case nolan: False
      show ?thesis
      proof (cases "n > CONF_NUMBER_OF_DEVICES (config eng)")
        case True
        then show ?thesis using nz nolan
          by (simp add: parse_device_state_packet_def n_def [symmetric] Let_def leaf)
      next
        case False
        then have ty: "get_device_type eng n = Inr (CONF_DEVICES (config eng) ! nat (n - 1))"
          using get_device_type_configured [OF assms, of n] n0 nz by simp
        define t where "t = CONF_DEVICES (config eng) ! nat (n - 1)"
        show ?thesis
        proof (cases "t \<in> set [DEVICE_KEYPAD k, DEVICE_OTHER k, DEVICE_EMPTY k]")
          case True
          then have "DEVICES k t \<noteq> None"
            using assms by (auto simp add: devices_configured_def)
          then obtain name where "DEVICES k t = Some name" by blast
          then show ?thesis using nz nolan False True ty
            by (simp add: parse_device_state_packet_def n_def [symmetric] Let_def leaf
                is_device_ignored_def t_def [symmetric])
        next
          case notign: False
          show ?thesis using nz nolan False notign ty
            by (simp add: parse_device_state_packet_def n_def [symmetric] Let_def leaf
                is_device_ignored_def is_device_with_activity_sensor_def t_def [symmetric]
                split: option.split)
        qed
      qed
    qed
  qed
  then show ?thesis by (simp add: good_def)
qed

lemma device_sensor_id_apart:
  "create_device_sensor_id i \<noteq> create_lan_connection_id"
  "create_device_sensor_id i \<noteq> create_device_problem_sensor_id n"
  by (simp_all add: create_device_sensor_id_def create_lan_connection_id_def
      create_device_problem_sensor_id_def)

lemma states_parse_device_state_packet_other:
  assumes "i \<noteq> parse_device_number_from_state_packet k packet"
  shows "states (snd (parse_device_state_packet k packet eng)) (create_device_sensor_id i)
           = states eng (create_device_sensor_id i)"
proof -
  define n where "n = parse_device_number_from_state_packet k packet"
  define same :: "error option \<times> engine \<Rightarrow> bool"
    where "same r \<longleftrightarrow> states (snd r) (create_device_sensor_id i)
             = states eng (create_device_sensor_id i)" for r
  have leaf: "\<And>e. same (e, eng)"
    "\<And>s b. same (None, update_state create_lan_connection_id s b eng)"
    "\<And>s b. same (None, update_state (create_device_sensor_id n) s b eng)"
    "\<And>s b. same (None, update_state (create_device_problem_sensor_id n) s b eng)"
    using assms
    by (simp_all add: same_def states_update_state device_sensor_id_apart
        device_sensor_id_inject n_def)
  have "same (parse_device_state_packet k packet eng)"
    unfolding parse_device_state_packet_def n_def [symmetric] Let_def
    by (simp add: leaf split: sum.split option.split bool.split)
  then show ?thesis by (simp add: same_def)
qed

lemma states_devices_states_step:
  "states (devices_states_step bits i eng) =
     (if py_slice bits (nat i) (nat i + 1) = ''1'' then states eng
      else (states eng)(create_device_sensor_id i \<mapsto> STATE_OFF))"
  by (simp add: devices_states_step_def Let_def states_update_state state_names)

lemma states_fold_devices_states_step:
  "states (fold (devices_states_step bits) numbers eng) x =
     (if \<exists>i \<in> set numbers. py_slice bits (nat i) (nat i + 1) \<noteq> ''1'' \<and> x = create_device_sensor_id i
      then Some STATE_OFF else states eng x)"
proof (induction numbers arbitrary: eng)
  case Nil
  then show ?case by simp
next
  case (Cons i numbers)
  show ?case
    unfolding fold_simps Cons.IH
    by (auto simp add: states_devices_states_step)
qed

lemma parse_devices_states_packet_run:
  assumes "devices_configured k eng"
  shows "parse_devices_states_packet k packet eng =
      (None, fold (devices_states_step (devices_states_bitfield k packet))
               [1 .. CONF_NUMBER_OF_DEVICES (config eng)]
               (snd (devices_states_triggered_device k packet eng)))"
proof -
  have "fst (devices_states_triggered_device k packet eng) = None"
    and "config (snd (devices_states_triggered_device k packet eng)) = config eng"
    unfolding devices_states_triggered_device_def Let_def
    using parse_device_state_packet_returns [OF assms]
    by simp_all
  then show ?thesis
    by (cases "devices_states_triggered_device k packet eng")
      (simp add: parse_devices_states_packet_def)
qed

text \<open>
  C7, as amended. On a configuration whose list of device types covers the configured
  number of devices and whose ignored types have a name, processing an aggregate devices
  states packet raises nothing. The device state packet that may follow the bitfield is
  handled first by the byte-level path, which can change the sensor state of the one
  device it names, also to on. The bitfield then only switches device sensors off: every
  device from 1 to the configured number whose bit is not 1 has its stored sensor state
  set to off; every one whose bit is 1 keeps the state it had after the following packet,
  which is the state before the aggregate packet for every device but the one that
  packet names, and for all devices when no device state packet follows; every stored
  state is what it was after the following packet or off.
\<close>

theorem devices_states_bitfield_off_only:
  assumes "devices_configured k eng"
  shows
    "let bits = devices_states_bitfield k packet;
         eng1 = snd (devices_states_triggered_device k packet eng);
         eng2 = snd (parse_devices_states_packet k packet eng);
         start = nat (triggered_device_start_packet k packet)
     in fst (parse_devices_states_packet k packet eng) = None
      \<and> (\<forall>i \<in> {1 .. CONF_NUMBER_OF_DEVICES (config eng)}.
            (py_slice bits (nat i) (nat i + 1) = ''1'' \<longrightarrow>
               states eng2 (create_device_sensor_id i) = states eng1 (create_device_sensor_id i))
          \<and> (py_slice bits (nat i) (nat i + 1) \<noteq> ''1'' \<longrightarrow>
               states eng2 (create_device_sensor_id i) = Some STATE_OFF))
      \<and> (\<forall>x. states eng2 x = states eng1 x \<or> states eng2 x = Some STATE_OFF)
      \<and> (\<not> is_device_state_packet (py_slice packet start (start + 2)) \<longrightarrow> eng1 = eng)
      \<and> (\<forall>i. i \<noteq> parse_device_number_from_state_packet k (drop start packet) \<longrightarrow>
            states eng1 (create_device_sensor_id i) = states eng (create_device_sensor_id i))
      \<and> (\<forall>i \<in> {1 .. CONF_NUMBER_OF_DEVICES (config eng)}.
            py_slice bits (nat i) (nat i + 1) = ''1''
            \<and> i \<noteq> parse_device_number_from_state_packet k (drop start packet) \<longrightarrow>
               states eng2 (create_device_sensor_id i) = states eng (create_device_sensor_id i))"
proof -
  define bits where "bits = devices_states_bitfield k packet"
  define eng1 where "eng1 = snd (devices_states_triggered_device k packet eng)"
  define eng2 where "eng2 = snd (parse_devices_states_packet k packet eng)"
  define start where "start = nat (triggered_device_start_packet k packet)"
  have first: "devices_states_triggered_device k packet eng = (None, eng1)"
    and conf: "config eng1 = config eng"
    unfolding eng1_def devices_states_triggered_device_def Let_def
    using parse_device_state_packet_returns [OF assms]
    by (simp_all add: prod_eq_iff)
  have run: "parse_devices_states_packet k packet eng =
      (None, fold (devices_states_step bits) [1 .. CONF_NUMBER_OF_DEVICES (config eng)] eng1)"
    by (simp add: parse_devices_states_packet_def first bits_def conf)
  then have eng2: "eng2 = fold (devices_states_step bits) [1 .. CONF_NUMBER_OF_DEVICES (config eng)] eng1"
    by (simp add: eng2_def)
  have none: "fst (parse_devices_states_packet k packet eng) = None"
    by (simp add: run)
  have each: "\<forall>i \<in> {1 .. CONF_NUMBER_OF_DEVICES (config eng)}.
            (py_slice bits (nat i) (nat i + 1) = ''1'' \<longrightarrow>
               states eng2 (create_device_sensor_id i) = states eng1 (create_device_sensor_id i))
          \<and> (py_slice bits (nat i) (nat i + 1) \<noteq> ''1'' \<longrightarrow>
               states eng2 (create_device_sensor_id i) = Some STATE_OFF)"
    by (auto simp add: eng2 states_fold_devices_states_step device_sensor_id_inject)
  have all: "\<forall>x. states eng2 x = states eng1 x \<or> states eng2 x = Some STATE_OFF"
    by (simp add: eng2 states_fold_devices_states_step)
  have plain: "\<not> is_device_state_packet (py_slice packet start (start + 2)) \<longrightarrow> eng1 = eng"
    by (simp add: eng1_def devices_states_triggered_device_def start_def Let_def)
  have others: "\<forall>i. i \<noteq> parse_device_number_from_state_packet k (drop start packet) \<longrightarrow>
            states eng1 (create_device_sensor_id i) = states eng (create_device_sensor_id i)"
    by (simp add: eng1_def devices_states_triggered_device_def start_def Let_def
        states_parse_device_state_packet_other)
  have kept: "\<forall>i \<in> {1 .. CONF_NUMBER_OF_DEVICES (config eng)}.
            py_slice bits (nat i) (nat i + 1) = ''1''
            \<and> i \<noteq> parse_device_number_from_state_packet k (drop start packet) \<longrightarrow>
               states eng2 (create_device_sensor_id i) = states eng (create_device_sensor_id i)"
    using each others by simp
  from none each all plain others kept show ?thesis
    unfolding Let_def bits_def eng1_def eng2_def start_def by blast
qed


text \<open>
  The packet \<^verbatim>\<open>d8 02 00 0a\<close> on the example engine: the bits of the devices 1 and 3
  are 1, those of the devices 2 and 4 are 0.
\<close>

lemma demo_device_sensor_ids:
  "create_device_sensor_id 1 = ''device_sensor_1''"
  "create_device_sensor_id 2 = ''device_sensor_2''"
  "create_device_sensor_id 3 = ''device_sensor_3''"
  "create_device_sensor_id 4 = ''device_sensor_4''"
  by code_simp+

lemma demo_devices_states_packet:
  "devices_configured demo_const demo_engine"
  "CONF_NUMBER_OF_DEVICES (config demo_engine) = 4"
  "triggered_device_start_packet demo_const [0xd8, 0x02, 0x00, 0x0a] = 4"
  "devices_states_bitfield demo_const [0xd8, 0x02, 0x00, 0x0a] = ''01010000''"
  "\<not> is_device_state_packet (py_slice [0xd8, 0x02, 0x00, 0x0a] 4 6)"
proof -
  show "devices_configured demo_const demo_engine"
    by (simp add: devices_configured_def demo_const_def demo_engine_def demo_config_def)
  show "CONF_NUMBER_OF_DEVICES (config demo_engine) = 4"
    by (simp add: demo_engine_def demo_config_def)
  show start: "triggered_device_start_packet demo_const [0xd8, 0x02, 0x00, 0x0a] = 4"
    by (simp add: triggered_device_start_packet_def bytes_to_int_def demo_const_def py_slice_def)
  have digits: "bin_nat 10 = ''1010''"
    by (simp add: bin_nat.simps)
  have pad: "replicate 4 CHR ''0'' = ''0000''"
    by (simp add: eval_nat_numeral)
  have field: "py_slice [0xd8, 0x02, 0x00, 0x0a] 3 (nat 4) = [0x0a :: byte]"
    by (simp add: py_slice_def)
  have "hex_to_bin demo_const [0x0a] = ''01010000''"
    by (simp add: hex_to_bin_def bytes_to_int_def demo_const_def py_bin_def zfill_def digits pad)
  then show "devices_states_bitfield demo_const [0xd8, 0x02, 0x00, 0x0a] = ''01010000''"
    by (simp only: devices_states_bitfield_def start field)
  show "\<not> is_device_state_packet (py_slice [0xd8, 0x02, 0x00, 0x0a] 4 6)"
    by (simp add: is_device_state_packet_def py_slice_def
        JABLOTRON_PACKET_WIRED_DEVICE_STATE_PREFIX_def
        JABLOTRON_PACKET_WIRELESS_DEVICE_STATE_PREFIX_def)
qed

theorem devices_states_bitfield_off_only_witness:
  "fst (parse_devices_states_packet demo_const [0xd8, 0x02, 0x00, 0x0a] demo_engine) = None
   \<and> states (snd (parse_devices_states_packet demo_const [0xd8, 0x02, 0x00, 0x0a] demo_engine))
        ''device_sensor_1'' = Some ''on''
   \<and> states (snd (parse_devices_states_packet demo_const [0xd8, 0x02, 0x00, 0x0a] demo_engine))
        ''device_sensor_2'' = Some ''off''
   \<and> states (snd (parse_devices_states_packet demo_const [0xd8, 0x02, 0x00, 0x0a] demo_engine))
        ''device_sensor_3'' = Some ''on''
   \<and> states (snd (parse_devices_states_packet demo_const [0xd8, 0x02, 0x00, 0x0a] demo_engine))
        ''device_sensor_4'' = Some ''off''"
proof -
  note t = devices_states_bitfield_off_only [OF demo_devices_states_packet(1),
      of "[0xd8, 0x02, 0x00, 0x0a]", unfolded Let_def demo_devices_states_packet(2-4)]
  from t demo_devices_states_packet(5)
  have same: "snd (devices_states_triggered_device demo_const [0xd8, 0x02, 0x00, 0x0a] demo_engine)
      = demo_engine"
    by simp
  note each = t [THEN conjunct2, THEN conjunct1, unfolded same]
  from t have "fst (parse_devices_states_packet demo_const [0xd8, 0x02, 0x00, 0x0a] demo_engine) = None"
    by simp
  moreover from each [THEN bspec, of 1]
  have "states (snd (parse_devices_states_packet demo_const [0xd8, 0x02, 0x00, 0x0a] demo_engine))
        ''device_sensor_1'' = Some ''on''"
    by (simp add: py_slice_def demo_device_sensor_ids demo_engine_states)
  moreover from each [THEN bspec, of 2]
  have "states (snd (parse_devices_states_packet demo_const [0xd8, 0x02, 0x00, 0x0a] demo_engine))
        ''device_sensor_2'' = Some ''off''"
    by (simp add: py_slice_def demo_device_sensor_ids STATE_OFF_def)
  moreover from each [THEN bspec, of 3]
  have "states (snd (parse_devices_states_packet demo_const [0xd8, 0x02, 0x00, 0x0a] demo_engine))
        ''device_sensor_3'' = Some ''on''"
    by (simp add: py_slice_def demo_device_sensor_ids demo_engine_states)
  moreover from each [THEN bspec, of 4]
  have "states (snd (parse_devices_states_packet demo_const [0xd8, 0x02, 0x00, 0x0a] demo_engine))
        ''device_sensor_4'' = Some ''off''"
    by (simp add: py_slice_def demo_device_sensor_ids STATE_OFF_def)
  ultimately show ?thesis by blast
qed


text \<open>
  The packet \<^verbatim>\<open>d8 02 00 0a 55 08 00 6c 40 00\<close>: the bitfield of the packet above,
  followed by a device state packet that reports activity of device 1 with the state
  byte 108 (on).
\<close>

lemma demo_trailing_packet:
  "triggered_device_start_packet demo_const [0xd8, 0x02, 0x00, 0x0a, 0x55, 0x08, 0x00, 0x6c, 0x40, 0x00] = 4"
  "devices_states_bitfield demo_const [0xd8, 0x02, 0x00, 0x0a, 0x55, 0x08, 0x00, 0x6c, 0x40, 0x00]
     = ''01010000''"
  "parse_device_number_from_state_packet demo_const [0x55, 0x08, 0x00, 0x6c, 0x40, 0x00] = 1"
  "convert_jablotron_device_state_to_state demo_const [0x55, 0x08, 0x00, 0x6c, 0x40, 0x00] 1 = Some STATE_ON"
  "is_device_state_packet_for_activity [0x55, 0x08, 0x00, 0x6c, 0x40, 0x00]"
proof -
  show start: "triggered_device_start_packet demo_const
      [0xd8, 0x02, 0x00, 0x0a, 0x55, 0x08, 0x00, 0x6c, 0x40, 0x00] = 4"
    by (simp add: triggered_device_start_packet_def bytes_to_int_def demo_const_def py_slice_def)
  have field: "py_slice [0xd8, 0x02, 0x00, 0x0a, 0x55, 0x08, 0x00, 0x6c, 0x40, 0x00] 3 (nat 4)
      = [0x0a :: byte]"
    by (simp add: py_slice_def)
  have "devices_states_bitfield demo_const [0xd8, 0x02, 0x00, 0x0a] = ''01010000''"
    by (rule demo_devices_states_packet(4))
  then have "hex_to_bin demo_const [0x0a] = ''01010000''"
    by (simp add: devices_states_bitfield_def demo_devices_states_packet(3) py_slice_def)
  then show "devices_states_bitfield demo_const
      [0xd8, 0x02, 0x00, 0x0a, 0x55, 0x08, 0x00, 0x6c, 0x40, 0x00] = ''01010000''"
    by (simp only: devices_states_bitfield_def start field)
  show "parse_device_number_from_state_packet demo_const [0x55, 0x08, 0x00, 0x6c, 0x40, 0x00] = 1"
    by (simp add: parse_device_number_from_state_packet_def bytes_to_int_def demo_const_def
        py_slice_def)
  show "convert_jablotron_device_state_to_state demo_const [0x55, 0x08, 0x00, 0x6c, 0x40, 0x00] 1
      = Some STATE_ON"
    by (simp add: convert_jablotron_device_state_to_state_def bytes_to_int_def demo_const_def
        py_slice_def state_names)
  show "is_device_state_packet_for_activity [0x55, 0x08, 0x00, 0x6c, 0x40, 0x00]"
    by (simp add: is_device_state_packet_for_activity_def py_slice_def
        JABLOTRON_PACKETS_DEVICE_ACTIVITY_def)
qed

lemma demo_engine_off_fields:
  "config demo_engine_off = demo_config"
  "central_unit_model demo_engine_off = ''JA-101K-LAN''"
  "states demo_engine_off ''device_sensor_1'' = Some ''off''"
  "devices_configured demo_const demo_engine_off"
  by (simp_all add: demo_engine_off_def demo_engine_fields devices_configured_def
      demo_const_def demo_config_def)

lemma demo_const_fields:
  "sys_byteorder demo_const = Little"
  "MAX_SECTIONS demo_const = 16"
  "DEVICE_EMPTY demo_const = ''empty''"
  "DEVICE_KEYPAD demo_const = ''keypad''"
  "DEVICE_SIREN_OUTDOOR demo_const = ''siren_outdoor''"
  "DEVICE_OTHER demo_const = ''other''"
  by (simp_all add: demo_const_def)

lemma demo_trailing_device:
  "parse_device_state_packet demo_const [0x55, 0x08, 0x00, 0x6c, 0x40, 0x00] demo_engine_off =
     (None, update_state ''device_sensor_1'' ''on'' False demo_engine_off)"
proof -
  have ty: "get_device_type demo_engine_off 1 = Inr ''motion''"
    by (simp add: get_device_type_def py_index_def demo_engine_off_fields demo_config_def)
  show ?thesis
    by (simp add: parse_device_state_packet_def demo_trailing_packet Let_def
        get_lan_connection_device_number_def demo_engine_off_fields(1,2)
        is_device_ignored_def is_device_with_activity_sensor_def ty
        demo_device_sensor_ids STATE_ON_def demo_config_def demo_const_fields)
qed

text \<open>
  The claim as stated fails on that packet: the sensor of device 1 is stored as off and
  the bit of device 1 is 1, yet the sensor is on after the packet, written by the device
  state packet that follows the bitfield.
\<close>

theorem devices_states_bitfield_off_only_counterexample:
  "states demo_engine_off ''device_sensor_1'' = Some ''off''
   \<and> py_slice (devices_states_bitfield demo_const
          [0xd8, 0x02, 0x00, 0x0a, 0x55, 0x08, 0x00, 0x6c, 0x40, 0x00]) 1 2 = ''1''
   \<and> states (snd (parse_devices_states_packet demo_const
          [0xd8, 0x02, 0x00, 0x0a, 0x55, 0x08, 0x00, 0x6c, 0x40, 0x00] demo_engine_off))
        ''device_sensor_1'' = Some ''on''"
proof -
  have trailing: "devices_states_triggered_device demo_const
      [0xd8, 0x02, 0x00, 0x0a, 0x55, 0x08, 0x00, 0x6c, 0x40, 0x00] demo_engine_off
      = (None, update_state ''device_sensor_1'' ''on'' False demo_engine_off)"
    by (simp add: devices_states_triggered_device_def demo_trailing_packet(1) py_slice_def
        is_device_state_packet_def JABLOTRON_PACKET_WIRED_DEVICE_STATE_PREFIX_def
        demo_trailing_device)
  have "states (snd (parse_devices_states_packet demo_const
          [0xd8, 0x02, 0x00, 0x0a, 0x55, 0x08, 0x00, 0x6c, 0x40, 0x00] demo_engine_off))
        ''device_sensor_1'' = Some ''on''"
    unfolding parse_devices_states_packet_run [OF demo_engine_off_fields(4)]
      trailing demo_trailing_packet(2) snd_conv
    by (simp add: states_fold_devices_states_step states_update_state py_slice_def
        demo_device_sensor_ids [symmetric] device_sensor_id_inject)
  then show ?thesis
    by (simp add: demo_engine_off_fields(3) demo_trailing_packet(2) py_slice_def)
qed


subsection \<open>Read step\<close>

lemma last_update_success_update_state:
  "last_update_success (update_state ident state store eng) = last_update_success eng"
  by (simp add: update_state_cases Let_def store_state_def)

lemma last_update_success_section_states:
  "last_update_success (parse_section_states_packet k packet eng) = last_update_success eng"
proof -
  have step: "last_update_success (section_states_step k item e) = last_update_success e" for item e
    by (simp add: section_states_step_def Let_def last_update_success_update_state)
  have "last_update_success (fold (section_states_step k) items e) = last_update_success e"
    for items e
    by (induction items arbitrary: e) (simp_all add: step)
  then show ?thesis by (simp add: parse_section_states_packet_def)
qed

lemma last_update_success_device_state:
  "last_update_success (snd (parse_device_state_packet k packet eng)) = last_update_success eng"
proof -
  define kept :: "error option \<times> engine \<Rightarrow> bool"
    where "kept r \<longleftrightarrow> last_update_success (snd r) = last_update_success eng" for r
  have leaf: "\<And>e. kept (e, eng)" "\<And>i s b. kept (None, update_state i s b eng)"
    by (simp_all add: kept_def last_update_success_update_state)
  have "kept (parse_device_state_packet k packet eng)"
    unfolding parse_device_state_packet_def Let_def
    by (simp add: leaf split: sum.split option.split bool.split)
  then show ?thesis by (simp add: kept_def)
qed

lemma last_update_success_devices_states:
  assumes "devices_configured k eng"
  shows "last_update_success (snd (parse_devices_states_packet k packet eng))
           = last_update_success eng"
proof -
  have step: "last_update_success (devices_states_step bits i e) = last_update_success e"
    for bits i e
    by (simp add: devices_states_step_def Let_def last_update_success_update_state)
  have loop: "last_update_success (fold (devices_states_step bits) numbers e)
      = last_update_success e" for bits numbers e
    by (induction numbers arbitrary: e) (simp_all add: step)
  have "last_update_success (snd (devices_states_triggered_device k packet eng))
      = last_update_success eng"
    by (simp add: devices_states_triggered_device_def Let_def last_update_success_device_state)
  then show ?thesis
    by (simp add: parse_devices_states_packet_run [OF assms] loop)
qed

lemma last_update_success_embedded_sections:
  "last_update_success (fold (embedded_sections_step k packet) offsets eng)
     = last_update_success eng"
proof (induction offsets arbitrary: eng)
  case Nil
  then show ?case by simp
next
  case (Cons i offsets)
  have "last_update_success (embedded_sections_step k packet i eng) = last_update_success eng"
    by (simp add: embedded_sections_step_def Let_def last_update_success_section_states)
  with Cons.IH show ?case by simp
qed

lemma read_dispatch_returns:
  assumes "devices_configured k eng"
  shows "fst (read_dispatch k packet eng) = None"
    and "last_update_success (snd (read_dispatch k packet eng)) = last_update_success eng"
proof -
  have dev: "fst (parse_device_state_packet k packet eng) = None"
    using parse_device_state_packet_returns [OF assms] by simp
  have devs: "fst (parse_devices_states_packet k packet eng) = None"
    by (simp add: parse_devices_states_packet_run [OF assms])
  show "fst (read_dispatch k packet eng) = None"
    using dev devs
    by (cases "parse_device_state_packet k packet eng")
      (simp add: read_dispatch_def Let_def)
  show "last_update_success (snd (read_dispatch k packet eng)) = last_update_success eng"
    using dev last_update_success_device_state [of k packet eng]
    by (cases "parse_device_state_packet k packet eng")
      (simp add: read_dispatch_def Let_def last_update_success_section_states
        last_update_success_embedded_sections last_update_success_devices_states [OF assms])
qed

lemma devices_configured_config:
  "config eng' = config eng \<Longrightarrow> devices_configured k eng' \<longleftrightarrow> devices_configured k eng"
  by (simp add: devices_configured_def)

text \<open>
  C4, as amended, on the whole step \<open>read_packet\<close>. A read of zero bytes sets the
  health flag to degraded and calls every subscribed entity once, on every such read,
  whatever the flag was before, and does nothing else. A read that is not empty while the
  flag is degraded restores the flag and calls every subscribed entity exactly once
  before the packet is dispatched; one while the flag is good dispatches the packet with
  no call before it. After the dispatch the flag is set to degraded and every subscribed
  entity called again only when the dispatch raised; on a configuration whose device
  list covers the configured number of devices it never raises, and the flag is good
  after every read that is not empty.
\<close>

theorem health_notification_edges:
  "read_packet k [] eng =
      eng\<lparr>last_update_success := False, ha_state_writes := ha_state_writes eng @ entities eng\<rparr>
   \<and> (packet \<noteq> [] \<longrightarrow>
        read_packet k packet eng =
          (let eng1 = (if last_update_success eng then eng
                       else eng\<lparr>last_update_success := True,
                                ha_state_writes := ha_state_writes eng @ entities eng\<rparr>)
           in case read_dispatch k packet eng1 of
                (None, eng2) \<Rightarrow> eng2
              | (Some e, eng2) \<Rightarrow>
                  eng2\<lparr>last_update_success := False,
                       ha_state_writes := ha_state_writes eng2 @ entities eng2\<rparr>))
   \<and> (packet \<noteq> [] \<and> devices_configured k eng \<longrightarrow>
        read_packet k packet eng =
          snd (read_dispatch k packet
                 (if last_update_success eng then eng
                  else eng\<lparr>last_update_success := True,
                           ha_state_writes := ha_state_writes eng @ entities eng\<rparr>))
        \<and> last_update_success (read_packet k packet eng))"
proof -
  define eng1 where "eng1 = (if last_update_success eng then eng
      else eng\<lparr>last_update_success := True,
               ha_state_writes := ha_state_writes eng @ entities eng\<rparr>)"
  have empty: "read_packet k [] eng =
      eng\<lparr>last_update_success := False, ha_state_writes := ha_state_writes eng @ entities eng\<rparr>"
    by (simp add: read_packet_def read_health_def update_all_entities_def)
  have step: "read_packet k packet eng =
      (case read_dispatch k packet eng1 of
         (None, eng2) \<Rightarrow> eng2
       | (Some e, eng2) \<Rightarrow>
           eng2\<lparr>last_update_success := False,
                ha_state_writes := ha_state_writes eng2 @ entities eng2\<rparr>)"
    if "packet \<noteq> []"
    using that
    by (simp add: read_packet_def read_health_def update_all_entities_def eng1_def
        split: prod.split option.split)
  have good: "read_packet k packet eng = snd (read_dispatch k packet eng1)
      \<and> last_update_success (read_packet k packet eng)"
    if "packet \<noteq> []" "devices_configured k eng"
  proof -
    have "devices_configured k eng1"
      using that(2) by (simp add: eng1_def devices_configured_def)
    from read_dispatch_returns [OF this, of packet]
    have "fst (read_dispatch k packet eng1) = None"
      and "last_update_success (snd (read_dispatch k packet eng1))"
      by (simp_all add: eng1_def)
    then show ?thesis
      by (cases "read_dispatch k packet eng1") (simp add: step [OF that(1)])
  qed
  from empty step good show ?thesis
    unfolding eng1_def Let_def by blast
qed

text \<open>
  The example engine with its three subscribed entities: an empty read, the unclassified
  packet \<^verbatim>\<open>52\<close> read while degraded and while good, and a sections states packet.
\<close>

lemma demo_unclassified_packet:
  "read_dispatch k [0x52] eng = (None, eng)"
  by (simp add: read_dispatch_def Let_def py_slice_def is_device_state_packet_def
      JABLOTRON_PACKET_SECTIONS_STATES_PREFIX_def JABLOTRON_PACKET_WIRED_DEVICE_STATE_PREFIX_def
      JABLOTRON_PACKET_WIRELESS_DEVICE_STATE_PREFIX_def JABLOTRON_PACKET_DEVICES_STATES_PREFIX_def)

theorem health_notification_edges_witness:
  "read_packet demo_const [] demo_engine =
     demo_engine\<lparr>last_update_success := False,
        ha_state_writes := [''section_1'', ''section_problem_sensor_1'', ''device_sensor_1'']\<rparr>
   \<and> read_packet demo_const [0x52] (demo_engine\<lparr>last_update_success := False\<rparr>) =
     demo_engine\<lparr>last_update_success := True,
        ha_state_writes := [''section_1'', ''section_problem_sensor_1'', ''device_sensor_1'']\<rparr>
   \<and> read_packet demo_const [0x52] demo_engine = demo_engine
   \<and> last_update_success (read_packet demo_const [0x51, 0x22, 0x13, 0x00, 0x07, 0x00] demo_engine)
   \<and> read_packet demo_const [0x51, 0x22, 0x13, 0x00, 0x07, 0x00] demo_engine =
       snd (read_dispatch demo_const [0x51, 0x22, 0x13, 0x00, 0x07, 0x00] demo_engine)"
proof -
  note bad = health_notification_edges
    [of demo_const "demo_engine\<lparr>last_update_success := False\<rparr>" "[0x52]"]
  note good = health_notification_edges [of demo_const demo_engine "[0x52]"]
  note sections = health_notification_edges
    [of demo_const demo_engine "[0x51, 0x22, 0x13, 0x00, 0x07, 0x00]"]
  have "read_packet demo_const [] demo_engine =
     demo_engine\<lparr>last_update_success := False,
        ha_state_writes := [''section_1'', ''section_problem_sensor_1'', ''device_sensor_1'']\<rparr>"
    using good [THEN conjunct1] by (simp add: demo_engine_fields)
  moreover have "read_packet demo_const [0x52] (demo_engine\<lparr>last_update_success := False\<rparr>) =
     demo_engine\<lparr>last_update_success := True,
        ha_state_writes := [''section_1'', ''section_problem_sensor_1'', ''device_sensor_1'']\<rparr>"
    using bad [THEN conjunct2, THEN conjunct1]
    by (simp add: demo_engine_fields demo_unclassified_packet)
  moreover have "read_packet demo_const [0x52] demo_engine = demo_engine"
    using good [THEN conjunct2, THEN conjunct1]
    by (simp add: demo_engine_fields demo_unclassified_packet)
  moreover have "last_update_success (read_packet demo_const [0x51, 0x22, 0x13, 0x00, 0x07, 0x00] demo_engine)
   \<and> read_packet demo_const [0x51, 0x22, 0x13, 0x00, 0x07, 0x00] demo_engine =
       snd (read_dispatch demo_const [0x51, 0x22, 0x13, 0x00, 0x07, 0x00] demo_engine)"
  proof -
    have "[0x51, 0x22, 0x13, 0x00, 0x07, 0x00] \<noteq> ([] :: bytes)
        \<and> devices_configured demo_const demo_engine"
      by (simp add: demo_devices_states_packet(1))
    from sections [THEN conjunct2, THEN conjunct2, rule_format, OF this]
    show ?thesis by (elim conjE) (simp add: demo_engine_fields)
  qed
  ultimately show ?thesis by blast
qed


text \<open>
  The claim as stated fails on the second of two empty reads: the flag is degraded before
  and after it, and the three subscribed entities are notified again.
\<close>

theorem health_notification_counterexample:
  "last_update_success (read_packet demo_const [] demo_engine) = False
   \<and> ha_state_writes (read_packet demo_const [] demo_engine) =
       [''section_1'', ''section_problem_sensor_1'', ''device_sensor_1'']
   \<and> last_update_success (read_packet demo_const [] (read_packet demo_const [] demo_engine)) = False
   \<and> ha_state_writes (read_packet demo_const [] (read_packet demo_const [] demo_engine)) =
       [''section_1'', ''section_problem_sensor_1'', ''device_sensor_1'',
        ''section_1'', ''section_problem_sensor_1'', ''device_sensor_1'']"
  by (simp add: read_packet_def read_health_def update_all_entities_def demo_engine_def)



end
